theory Spec2Isabelle
  imports Main "HOL-Library.AList"
begin


section \<open>Values\<close>

text \<open>
  The values that flow through a transformation are JavaScript values of JSON shape,
  together with \<open>undefined\<close> (what a property lookup yields for a missing key).
  Numbers are modelled as integers. An object is the list of its own enumerable
  properties in the order \<open>Object.keys\<close> reports them.
\<close>

datatype json =
    JUndefined
  | JNull
  | JBool bool
  | JNum int
  | JStr string
  | JArr "json list"
  | JObj "(string \<times> json) list"

text \<open>Every \<open>throw new Error(...)\<close> of the source is one constructor; \<open>TypeError\<close>
  is what the JavaScript runtime raises on a property access on null or undefined,
  \<open>LibraryError\<close> what a library outside the repository raises.\<close>

datatype error =
    UnknownFunction string
  | GetNotString
  | ObjectNotObject
  | SubstringWrongType string
  | LengthWrongType
  | ArrayOptions
  | UnionOptions
  | JoinNotArray
  | SplitNoSeparator
  | FilterNotArray
  | SliceNotArray
  | CaseOptions
  | HtmlOptions string
  | ReplaceOptions
  | AssertionFailed
  | TypeError
  | LibraryError string

type_synonym 'a result = "error + 'a"

fun typeof :: "json \<Rightarrow> string" where
  "typeof JUndefined = ''undefined''"
| "typeof JNull = ''object''"
| "typeof (JBool _) = ''boolean''"
| "typeof (JNum _) = ''number''"
| "typeof (JStr _) = ''string''"
| "typeof (JArr _) = ''object''"
| "typeof (JObj _) = ''object''"

text \<open>\<open>x === null || typeof x === 'undefined'\<close>\<close>

definition nullish :: "json \<Rightarrow> bool" where
  "nullish v = (v = JNull \<or> v = JUndefined)"

fun truthy :: "json \<Rightarrow> bool" where
  "truthy JUndefined = False"
| "truthy JNull = False"
| "truthy (JBool b) = b"
| "truthy (JNum n) = (n \<noteq> 0)"
| "truthy (JStr s) = (s \<noteq> [])"
| "truthy (JArr _) = True"
| "truthy (JObj _) = True"

fun isArray :: "json \<Rightarrow> bool" where
  "isArray (JArr _) = True"
| "isArray _ = False"

subsection \<open>Numbers and strings\<close>

function digits :: "nat \<Rightarrow> string" where
  "digits n = (if n < 10 then [char_of (48 + n)] else digits (n div 10) @ [char_of (48 + n mod 10)])"
  by pat_completeness auto
termination
  by (relation "measure id") auto

definition show_int :: "int \<Rightarrow> string" where
  "show_int i = (if i < 0 then CHR ''-'' # digits (nat (- i)) else digits (nat i))"

definition is_digit :: "char \<Rightarrow> bool" where
  "is_digit c = ((48::nat) \<le> of_char c \<and> (of_char c :: nat) \<le> 57)"

fun digits_value :: "nat \<Rightarrow> string \<Rightarrow> nat" where
  "digits_value acc [] = acc"
| "digits_value acc (c # cs) = digits_value (10 * acc + (of_char c - 48)) cs"

text \<open>An array index in canonical form: decimal digits without a leading zero.\<close>

definition array_index :: "string \<Rightarrow> nat option" where
  "array_index s =
     (if s \<noteq> [] \<and> list_all is_digit s \<and> (length s = 1 \<or> hd s \<noteq> CHR ''0'')
      then Some (digits_value 0 s) else None)"

text \<open>\<open>String.prototype.split\<close> with a non-empty string separator.\<close>

function split_go :: "string \<Rightarrow> string \<Rightarrow> string \<Rightarrow> string list" where
  "split_go sep acc [] = [rev acc]"
| "split_go sep acc (c # cs) =
     (if sep \<noteq> [] \<and> take (length sep) (c # cs) = sep
      then rev acc # split_go sep [] (drop (length sep) (c # cs))
      else split_go sep (c # acc) cs)"
  by pat_completeness auto
termination
  by (relation "measure (\<lambda>(sep, acc, s). length s)") auto

definition split_str :: "string \<Rightarrow> string \<Rightarrow> string list" where
  "split_str sep s = split_go sep [] s"

fun intersperse :: "string \<Rightarrow> string list \<Rightarrow> string" where
  "intersperse sep [] = []"
| "intersperse sep [x] = x"
| "intersperse sep (x # y # ys) = x @ sep @ intersperse sep (y # ys)"

text \<open>\<open>String(v)\<close>, as \<open>Array.prototype.join\<close> and \<open>_case\<close> apply it. \<open>join\<close>
  renders null and undefined elements as the empty string.\<close>

fun to_string :: "json \<Rightarrow> string"
and join_items :: "json list \<Rightarrow> string list" where
  "to_string JUndefined = ''undefined''"
| "to_string JNull = ''null''"
| "to_string (JBool b) = (if b then ''true'' else ''false'')"
| "to_string (JNum n) = show_int n"
| "to_string (JStr s) = s"
| "to_string (JArr xs) = intersperse '','' (join_items xs)"
| "to_string (JObj _) = ''[object Object]''"
| "join_items [] = []"
| "join_items (x # xs) = (if x = JNull \<or> x = JUndefined then [] else to_string x) # join_items xs"

definition array_join :: "json list \<Rightarrow> string \<Rightarrow> string" where
  "array_join xs sep = intersperse sep (join_items xs)"

subsection \<open>Property access\<close>

text \<open>\<open>obj[key]\<close> on a value: own properties only (the properties inherited from
  \<open>Object.prototype\<close> and \<open>Array.prototype\<close> are outside the model, apart from an
  array's \<open>length\<close>). Access on null or undefined throws a TypeError.\<close>

fun js_prop :: "json \<Rightarrow> string \<Rightarrow> json result" where
  "js_prop JUndefined k = Inl TypeError"
| "js_prop JNull k = Inl TypeError"
| "js_prop (JObj kvs) k = Inr (case map_of kvs k of Some v \<Rightarrow> v | None \<Rightarrow> JUndefined)"
| "js_prop (JArr xs) k =
     Inr (if k = ''length'' then JNum (int (length xs))
          else (case array_index k of
                  Some i \<Rightarrow> (if i < length xs then xs ! i else JUndefined)
                | None \<Rightarrow> JUndefined))"
| "js_prop (JStr s) k =
     Inr (if k = ''length'' then JNum (int (length s))
          else (case array_index k of
                  Some i \<Rightarrow> (if i < length s then JStr [s ! i] else JUndefined)
                | None \<Rightarrow> JUndefined))"
| "js_prop (JBool _) k = Inr JUndefined"
| "js_prop (JNum _) k = Inr JUndefined"

text \<open>\<open>Object.keys(x)\<close> paired with the values: the entries a \<open>for\<close> loop over the keys
  visits. \<open>Object.keys\<close> of null or undefined throws.\<close>

definition index_keys :: "nat \<Rightarrow> string list" where
  "index_keys n = map digits [0..<n]"

fun object_entries :: "json \<Rightarrow> (string \<times> json) list result" where
  "object_entries JUndefined = Inl TypeError"
| "object_entries JNull = Inl TypeError"
| "object_entries (JObj kvs) = Inr kvs"
| "object_entries (JArr xs) = Inr (zip (index_keys (length xs)) xs)"
| "object_entries (JStr s) = Inr (zip (index_keys (length s)) (map (\<lambda>c. JStr [c]) s))"
| "object_entries (JBool _) = Inr []"
| "object_entries (JNum _) = Inr []"

section \<open>The jsonpointer package\<close>

text \<open>
  \<open>JsonPointer.get\<close> of the jsonpointer package (4.x), which the repository requires:
  the pointer is split at \<open>/\<close> and must start with the empty token; the input must be
  of type object; each token is unescaped and used for a property access; an
  intermediate value that is not of type object ends the walk with undefined.
  An intermediate null is of type object, so the next access throws.
\<close>

fun untilde :: "string \<Rightarrow> string" where
  "untilde (c # d # cs) =
     (if c = CHR ''~'' \<and> d = CHR ''1'' then CHR ''/'' # untilde cs
      else if c = CHR ''~'' \<and> d = CHR ''0'' then CHR ''~'' # untilde cs
      else c # untilde (d # cs))"
| "untilde cs = cs"

definition compilePointer :: "string \<Rightarrow> string list result" where
  "compilePointer p =
     (case split_str ''/'' p of
        [] \<Rightarrow> Inl (LibraryError ''Invalid JSON pointer.'')
      | t # ts \<Rightarrow> if t = [] then Inr (t # ts) else Inl (LibraryError ''Invalid JSON pointer.''))"

fun pointer_walk :: "json \<Rightarrow> string list \<Rightarrow> json result" where
  "pointer_walk obj [] = Inr JUndefined"
| "pointer_walk obj (t # ts) =
     (case js_prop obj (untilde t) of
        Inl e \<Rightarrow> Inl e
      | Inr obj' \<Rightarrow>
          if ts = [] then Inr obj'
          else if typeof obj' \<noteq> ''object'' then Inr JUndefined
          else pointer_walk obj' ts)"

definition JsonPointer_get :: "json \<Rightarrow> string \<Rightarrow> json result" where
  "JsonPointer_get obj pointer =
     (if typeof obj \<noteq> ''object'' then Inl (LibraryError ''Invalid input object.'')
      else (case compilePointer pointer of
              Inl e \<Rightarrow> Inl e
            | Inr ts \<Rightarrow> if length ts = 1 then Inr obj else pointer_walk obj (tl ts)))"

section \<open>Libraries outside the repository\<close>

text \<open>
  lodash's string functions, Node's crypto, cheerio, the JSON and XML parsers, the schema
  validator, the regular-expression engine and the clock are not part of the repository.
  The evaluator takes them as a record of functions; nothing is assumed about them.
\<close>

record ext =
  lodash_lowerCase :: "string \<Rightarrow> string"
  lodash_upperCase :: "string \<Rightarrow> string"
  lodash_camelCase :: "string \<Rightarrow> string"
  lodash_kebabCase :: "string \<Rightarrow> string"
  lodash_snakeCase :: "string \<Rightarrow> string"
  lodash_capitalize :: "string \<Rightarrow> string"
  lodash_deburr :: "string \<Rightarrow> string"
  lodash_union :: "json list \<Rightarrow> json"
  str_toLowerCase :: "string \<Rightarrow> string"
  str_toUpperCase :: "string \<Rightarrow> string"
  str_trim :: "string \<Rightarrow> string"
  str_replace :: "string \<Rightarrow> string \<Rightarrow> string \<Rightarrow> json result"
  crypto_hash :: "json \<Rightarrow> json \<Rightarrow> json \<Rightarrow> json result"
  json_stringify :: "json \<Rightarrow> json"
  json_parse :: "json \<Rightarrow> json result"
  xml_parse :: "string \<Rightarrow> json result"
  cheerio_select :: "string \<Rightarrow> string \<Rightarrow> (string \<times> string) list result"
  cheerio_attr :: "string \<Rightarrow> string \<Rightarrow> json result"
  cheerio_rows :: "string \<Rightarrow> string \<Rightarrow> (string \<times> string list) list result"
  is_valid :: "json \<Rightarrow> json \<Rightarrow> bool result"
  clock_now :: "json"
  proto_method :: "string \<Rightarrow> json \<Rightarrow> json \<Rightarrow> json result"

text \<open>\<open>_.cloneDeep\<close>: a structurally equal copy; on values it is the identity.\<close>

definition cloneDeep :: "json \<Rightarrow> json" where
  "cloneDeep v = v"

text \<open>\<open>_.defaults(options, {k: d})\<close> followed by reading \<open>options.k\<close>: the default applies
  exactly when the property is undefined; a null or primitive \<open>options\<close> has no own properties.\<close>

definition own_prop :: "json \<Rightarrow> string \<Rightarrow> json" where
  "own_prop options k = (case js_prop options k of Inl _ \<Rightarrow> JUndefined | Inr v \<Rightarrow> v)"

definition defaults_prop :: "json \<Rightarrow> string \<Rightarrow> json \<Rightarrow> json" where
  "defaults_prop options k d = (if own_prop options k = JUndefined then d else own_prop options k)"

section \<open>Transformation: the operations without sub-templates\<close>

text \<open>\<open>Transformation._get\<close>\<close>

definition tf_get :: "json \<Rightarrow> json \<Rightarrow> json result" where
  "tf_get v options =
     (case options of
        JStr pointer \<Rightarrow>
          (case JsonPointer_get v pointer of
             Inl _ \<Rightarrow> Inr JNull
           | Inr r \<Rightarrow> Inr r)
      | _ \<Rightarrow> Inl GetNotString)"

text \<open>\<open>Transformation._static\<close>\<close>

definition tf_static :: "json \<Rightarrow> json \<Rightarrow> json result" where
  "tf_static v options = Inr options"

text \<open>\<open>String.prototype.substring(a, b)\<close>; \<open>None\<close> stands for \<open>Infinity\<close>.\<close>

definition clamp_index :: "int option \<Rightarrow> nat \<Rightarrow> nat" where
  "clamp_index i n = (case i of None \<Rightarrow> n | Some j \<Rightarrow> if j < 0 then 0 else min (nat j) n)"

definition js_substring :: "'a list \<Rightarrow> int option \<Rightarrow> int option \<Rightarrow> 'a list" where
  "js_substring s a b =
     (let a' = clamp_index a (length s); b' = clamp_index b (length s)
      in take (max a' b' - min a' b') (drop (min a' b') s))"

text \<open>\<open>Transformation._substring\<close>\<close>

definition tf_substring :: "json \<Rightarrow> json \<Rightarrow> json result" where
  "tf_substring v options =
     (case v of
        JStr s \<Rightarrow>
          (case js_prop options ''start'' of
             Inl e \<Rightarrow> Inl e
           | Inr st \<Rightarrow>
               (case js_prop options ''length'' of
                  Inl e \<Rightarrow> Inl e
                | Inr ln \<Rightarrow>
                    let start = (case st of JNum n \<Rightarrow> n | _ \<Rightarrow> 0);
                        stop = (case ln of JNum n \<Rightarrow> Some (start + n) | _ \<Rightarrow> None)
                    in Inr (JStr (js_substring s (Some start) stop))))
      | _ \<Rightarrow> Inl (SubstringWrongType (typeof v)))"

text \<open>\<open>Transformation._length\<close>\<close>

definition tf_length :: "json \<Rightarrow> json result" where
  "tf_length v =
     (case v of
        JStr s \<Rightarrow> Inr (JNum (int (length s)))
      | JArr xs \<Rightarrow> Inr (JNum (int (length xs)))
      | _ \<Rightarrow> Inl LengthWrongType)"

text \<open>\<open>Transformation._hash\<close>\<close>

definition tf_hash :: "ext \<Rightarrow> json \<Rightarrow> json \<Rightarrow> json result" where
  "tf_hash x v options =
     (let data = (case v of JStr _ \<Rightarrow> v | _ \<Rightarrow> json_stringify x v)
      in crypto_hash x (defaults_prop options ''algorithm'' (JStr ''md5''))
                       (defaults_prop options ''encoding'' (JStr ''hex'')) data)"

text \<open>\<open>Transformation._join\<close>\<close>

definition tf_join :: "json \<Rightarrow> json \<Rightarrow> json result" where
  "tf_join v options =
     (case v of
        JArr xs \<Rightarrow>
          (case js_prop options ''separator'' of
             Inl e \<Rightarrow> Inl e
           | Inr sep \<Rightarrow> Inr (JStr (array_join xs (if truthy sep then to_string sep else []))))
      | _ \<Rightarrow> Inl JoinNotArray)"

definition js_split :: "string \<Rightarrow> string \<Rightarrow> string list" where
  "js_split s sep = (if sep = [] then map (\<lambda>c. [c]) s else split_str sep s)"

text \<open>\<open>Transformation._split\<close>\<close>

definition tf_split :: "json \<Rightarrow> json \<Rightarrow> json result" where
  "tf_split v options =
     (case js_prop options ''separator'' of
        Inl e \<Rightarrow> Inl e
      | Inr sep \<Rightarrow>
          if \<not> truthy sep then Inl SplitNoSeparator
          else (case v of
                  JStr s \<Rightarrow> Inr (JArr (map JStr (js_split s (to_string sep))))
                | _ \<Rightarrow> Inr (JArr [])))"

text \<open>\<open>Transformation._filter\<close>\<close>

definition tf_filter :: "json \<Rightarrow> json result" where
  "tf_filter v =
     (case v of
        JArr xs \<Rightarrow> Inr (JArr (filter truthy xs))
      | _ \<Rightarrow> Inl FilterNotArray)"

text \<open>\<open>Number(v)\<close> on integers; \<open>None\<close> stands for \<open>NaN\<close>. Only decimal integer
  literals are read from strings.\<close>

definition str_to_number :: "string \<Rightarrow> int option" where
  "str_to_number s =
     (if s = [] then Some 0
      else if list_all is_digit s then Some (int (digits_value 0 s))
      else if hd s = CHR ''-'' \<and> tl s \<noteq> [] \<and> list_all is_digit (tl s)
        then Some (- int (digits_value 0 (tl s)))
      else None)"

fun to_number :: "json \<Rightarrow> int option" where
  "to_number JUndefined = None"
| "to_number JNull = Some 0"
| "to_number (JBool b) = Some (if b then 1 else 0)"
| "to_number (JNum n) = Some n"
| "to_number (JStr s) = str_to_number s"
| "to_number (JArr xs) = str_to_number (to_string (JArr xs))"
| "to_number (JObj _) = None"

text \<open>\<open>Array.prototype.slice(from, to)\<close>; a \<open>NaN\<close> bound counts as 0, \<open>None\<close> as
  \<open>Infinity\<close>, a negative bound from the end.\<close>

definition slice_index :: "int option \<Rightarrow> nat \<Rightarrow> nat" where
  "slice_index i n =
     (case i of
        None \<Rightarrow> n
      | Some j \<Rightarrow> if j < 0 then nat (int n + j) else min (nat j) n)"

definition js_slice :: "'a list \<Rightarrow> int option \<Rightarrow> int option \<Rightarrow> 'a list" where
  "js_slice xs a b =
     (let a' = slice_index a (length xs); b' = slice_index b (length xs)
      in take (b' - a') (drop a' xs))"

definition slice_bound :: "json \<Rightarrow> int option" where
  "slice_bound v = Some (case to_number v of None \<Rightarrow> 0 | Some n \<Rightarrow> n)"

text \<open>\<open>Transformation._slice\<close>\<close>

definition tf_slice :: "json \<Rightarrow> json \<Rightarrow> json result" where
  "tf_slice v options =
     (case v of
        JArr xs \<Rightarrow>
          Inr (JArr (js_slice xs
            (slice_bound (defaults_prop options ''from'' (JNum 0)))
            (if own_prop options ''to'' = JUndefined then None
             else slice_bound (own_prop options ''to''))))
      | _ \<Rightarrow> Inl SliceNotArray)"

text \<open>\<open>Transformation._count\<close>\<close>

definition tf_count :: "json \<Rightarrow> json result" where
  "tf_count v =
     (case v of
        JStr s \<Rightarrow> Inr (JNum (int (length s)))
      | JArr xs \<Rightarrow> Inr (JNum (int (length xs)))
      | _ \<Rightarrow> Inr (JNum 0))"

text \<open>\<open>Transformation._case\<close>\<close>

definition tf_case :: "json \<Rightarrow> json \<Rightarrow> json result" where
  "tf_case v options =
     (if typeof options \<noteq> ''object'' \<or> options = JNull then Inl CaseOptions
      else if own_prop options (to_string v) \<noteq> JUndefined then Inr (own_prop options (to_string v))
      else if own_prop options ''default'' \<noteq> JUndefined then Inr (own_prop options ''default'')
      else Inr JNull)"

text \<open>\<open>Transformation._htmlTag\<close>, \<open>_htmlTags\<close>, \<open>_htmlTagText\<close>, \<open>_htmlTagsText\<close>:
  \<open>cheerio_select\<close> gives, for each element the selector matches, its markup and its text.\<close>

definition tf_htmlTag :: "ext \<Rightarrow> json \<Rightarrow> json \<Rightarrow> json result" where
  "tf_htmlTag x v options =
     (case options of
        JStr sel \<Rightarrow>
          (case v of
             JStr html \<Rightarrow>
               (case cheerio_select x sel html of
                  Inl e \<Rightarrow> Inl e
                | Inr [] \<Rightarrow> Inr JNull
                | Inr (m # _) \<Rightarrow> Inr (JStr (fst m)))
           | _ \<Rightarrow> Inr JNull)
      | _ \<Rightarrow> Inl (HtmlOptions ''htmlTag''))"

definition tf_htmlTags :: "ext \<Rightarrow> json \<Rightarrow> json \<Rightarrow> json result" where
  "tf_htmlTags x v options =
     (case options of
        JStr sel \<Rightarrow>
          (case v of
             JStr html \<Rightarrow>
               (case cheerio_select x sel html of
                  Inl e \<Rightarrow> Inl e
                | Inr ms \<Rightarrow> Inr (JArr (map (\<lambda>m. JStr (fst m)) ms)))
           | _ \<Rightarrow> Inr (JArr []))
      | _ \<Rightarrow> Inl (HtmlOptions ''htmlTags''))"

definition tf_htmlTagText :: "ext \<Rightarrow> json \<Rightarrow> json \<Rightarrow> json result" where
  "tf_htmlTagText x v options =
     (case options of
        JStr sel \<Rightarrow>
          (case v of
             JStr html \<Rightarrow>
               (case cheerio_select x sel html of
                  Inl e \<Rightarrow> Inl e
                | Inr [] \<Rightarrow> Inr JNull
                | Inr (m # _) \<Rightarrow> Inr (JStr (snd m)))
           | _ \<Rightarrow> Inr JNull)
      | _ \<Rightarrow> Inl (HtmlOptions ''htmlTagText''))"

definition tf_htmlTagsText :: "ext \<Rightarrow> json \<Rightarrow> json \<Rightarrow> json result" where
  "tf_htmlTagsText x v options =
     (case options of
        JStr sel \<Rightarrow>
          (case v of
             JStr html \<Rightarrow>
               (case cheerio_select x sel html of
                  Inl e \<Rightarrow> Inl e
                | Inr ms \<Rightarrow> Inr (JArr (map (\<lambda>m. JStr (snd m)) ms)))
           | _ \<Rightarrow> Inr (JArr []))
      | _ \<Rightarrow> Inl (HtmlOptions ''htmlTagsText''))"

text \<open>\<open>Transformation._htmlAttribute\<close>\<close>

definition tf_htmlAttribute :: "ext \<Rightarrow> json \<Rightarrow> json \<Rightarrow> json result" where
  "tf_htmlAttribute x v options =
     (case options of
        JStr attr \<Rightarrow>
          (case v of
             JStr html \<Rightarrow>
               (case cheerio_attr x html attr of
                  Inl e \<Rightarrow> Inl e
                | Inr r \<Rightarrow> Inr (if r = JUndefined then JNull else r))
           | _ \<Rightarrow> Inr JNull)
      | _ \<Rightarrow> Inl (HtmlOptions ''htmlAttribute''))"

text \<open>\<open>Transformation._htmlTable\<close>: \<open>cheerio_rows\<close> gives, for each row the selector
  matches, its markup and the texts of its \<open>td\<close> cells. The text of a cell that does
  not exist is the empty string.\<close>

definition cell_text :: "string list \<Rightarrow> int \<Rightarrow> string" where
  "cell_text cells i = (if 0 \<le> i \<and> i < int (length cells) then cells ! nat i else [])"

fun htmlTable_rows :: "ext \<Rightarrow> (string \<times> string list) list \<Rightarrow> int \<Rightarrow> string \<Rightarrow> json \<Rightarrow> json" where
  "htmlTable_rows x [] cell txt returnCell = JNull"
| "htmlTable_rows x ((row, cells) # rows) cell txt returnCell =
     (if int (length cells) \<ge> cell \<and>
         str_toLowerCase x (str_trim x (cell_text cells cell)) = str_toLowerCase x (str_trim x txt)
      then (case returnCell of
              JNum r \<Rightarrow> (if int (length cells) \<ge> r then JStr (cell_text cells r) else JNull)
            | _ \<Rightarrow> JStr row)
      else htmlTable_rows x rows cell txt returnCell)"

definition tf_htmlTable :: "ext \<Rightarrow> json \<Rightarrow> json \<Rightarrow> json result" where
  "tf_htmlTable x v options =
     (if typeof options \<noteq> ''object'' then Inl (HtmlOptions ''htmlTable'')
      else (case js_prop options ''cell'' of
              Inl e \<Rightarrow> Inl e
            | Inr (JNum cell) \<Rightarrow>
                (case own_prop options ''text'' of
                   JStr txt \<Rightarrow>
                     (case v of
                        JStr html \<Rightarrow>
                          (let selector =
                                 (case own_prop options ''selector'' of
                                    JStr sel \<Rightarrow> sel @ ''>tr '' @ sel @ ''>tbody>tr''
                                  | _ \<Rightarrow> ''tr'')
                           in case cheerio_rows x selector html of
                                Inl e \<Rightarrow> Inl e
                              | Inr rows \<Rightarrow>
                                  Inr (htmlTable_rows x rows cell txt (own_prop options ''returnCell'')))
                      | _ \<Rightarrow> Inr JNull)
                 | _ \<Rightarrow> Inl (HtmlOptions ''htmlTable''))
            | Inr _ \<Rightarrow> Inl (HtmlOptions ''htmlTable'')))"

text \<open>\<open>Transformation._replace\<close>: \<open>str_replace\<close> stands for building the regular
  expression from a \<open>/body/flags\<close> search string and for \<open>String.prototype.replace\<close>.\<close>

definition tf_replace :: "ext \<Rightarrow> json \<Rightarrow> json \<Rightarrow> json result" where
  "tf_replace x v options =
     (if typeof options \<noteq> ''object'' then Inl ReplaceOptions
      else (case js_prop options ''search'' of
              Inl e \<Rightarrow> Inl e
            | Inr (JStr search) \<Rightarrow>
                (case own_prop options ''replace'' of
                   JStr rep \<Rightarrow>
                     (case v of
                        JStr s \<Rightarrow> str_replace x s search rep
                      | _ \<Rightarrow> Inr JNull)
                 | _ \<Rightarrow> Inl ReplaceOptions)
            | Inr _ \<Rightarrow> Inl ReplaceOptions))"

text \<open>\<open>Transformation._fromJson\<close>, \<open>_toJson\<close>, \<open>_fromXml\<close>, \<open>_now\<close>\<close>

definition tf_fromJson :: "ext \<Rightarrow> json \<Rightarrow> json result" where
  "tf_fromJson x v = json_parse x v"

definition tf_toJson :: "ext \<Rightarrow> json \<Rightarrow> json result" where
  "tf_toJson x v = Inr (json_stringify x v)"

definition tf_fromXml :: "ext \<Rightarrow> json \<Rightarrow> json result" where
  "tf_fromXml x v = (case v of JStr s \<Rightarrow> xml_parse x s | _ \<Rightarrow> Inr JNull)"

definition tf_now :: "ext \<Rightarrow> json result" where
  "tf_now x = Inr (clock_now x)"

text \<open>\<open>Transformation._lowerCase\<close>, \<open>_upperCase\<close>, \<open>_camelCase\<close>, \<open>_kebabCase\<close>,
  \<open>_snakeCase\<close>, \<open>_capitalize\<close>, \<open>_deburr\<close>: all of one shape.\<close>

definition string_only :: "(string \<Rightarrow> string) \<Rightarrow> json \<Rightarrow> json result" where
  "string_only f v = (case v of JStr s \<Rightarrow> Inr (JStr (f s)) | _ \<Rightarrow> Inr JNull)"

definition tf_lowerCase :: "ext \<Rightarrow> json \<Rightarrow> json result" where
  "tf_lowerCase x v = string_only (lodash_lowerCase x) v"

definition tf_upperCase :: "ext \<Rightarrow> json \<Rightarrow> json result" where
  "tf_upperCase x v = string_only (lodash_upperCase x) v"

definition tf_camelCase :: "ext \<Rightarrow> json \<Rightarrow> json result" where
  "tf_camelCase x v = string_only (lodash_camelCase x) v"

definition tf_kebabCase :: "ext \<Rightarrow> json \<Rightarrow> json result" where
  "tf_kebabCase x v = string_only (lodash_kebabCase x) v"

definition tf_snakeCase :: "ext \<Rightarrow> json \<Rightarrow> json result" where
  "tf_snakeCase x v = string_only (lodash_snakeCase x) v"

definition tf_capitalize :: "ext \<Rightarrow> json \<Rightarrow> json result" where
  "tf_capitalize x v = string_only (lodash_capitalize x) v"

definition tf_deburr :: "ext \<Rightarrow> json \<Rightarrow> json result" where
  "tf_deburr x v = string_only (lodash_deburr x) v"

text \<open>\<open>Transformation._nameCase\<close>: lower-case, split at every white-space character,
  upper-case the first character of each word, join with a space.\<close>

definition is_space :: "char \<Rightarrow> bool" where
  "is_space c = (of_char c \<in> {32, 9, 10, 11, 12, 13 :: nat})"

fun split_where :: "(char \<Rightarrow> bool) \<Rightarrow> string \<Rightarrow> string \<Rightarrow> string list" where
  "split_where P acc [] = [rev acc]"
| "split_where P acc (c # cs) =
     (if P c then rev acc # split_where P [] cs else split_where P (c # acc) cs)"

definition tf_nameCase :: "ext \<Rightarrow> json \<Rightarrow> json result" where
  "tf_nameCase x v =
     (case v of
        JStr s \<Rightarrow>
          Inr (JStr (intersperse '' ''
            (map (\<lambda>word. str_toUpperCase x (take 1 word) @ drop 1 word)
               (split_where is_space [] (str_toLowerCase x s)))))
      | _ \<Rightarrow> Inr JNull)"

text \<open>\<open>Transformation._assert\<close>\<close>

definition tf_assert :: "ext \<Rightarrow> json \<Rightarrow> json \<Rightarrow> json result" where
  "tf_assert x v options =
     (case is_valid x options v of
        Inl e \<Rightarrow> Inl e
      | Inr ok \<Rightarrow> if ok then Inr v else Inl AssertionFailed)"

section \<open>Transformation: dispatch and the chain\<close>

text \<open>
  \<open>typeof this['_' + key] === 'function'\<close>: the methods of the class, and the four
  functions every object inherits under a name that starts with an underscore.
\<close>

definition method_names :: "string list" where
  "method_names =
     [''get'', ''static'', ''object'', ''map'', ''substring'', ''length'', ''hash'', ''array'',
      ''union'', ''join'', ''split'', ''filter'', ''slice'', ''count'', ''case'', ''htmlTag'',
      ''htmlTags'', ''htmlTagText'', ''htmlTagsText'', ''htmlAttribute'', ''htmlTable'',
      ''replace'', ''fromJson'', ''toJson'', ''fromXml'', ''now'', ''lowerCase'', ''upperCase'',
      ''camelCase'', ''kebabCase'', ''snakeCase'', ''nameCase'', ''capitalize'', ''deburr'',
      ''assert'']"

definition inherited_names :: "string list" where
  "inherited_names =
     [''_defineGetter__'', ''_defineSetter__'', ''_lookupGetter__'', ''_lookupSetter__'']"

definition is_function :: "string \<Rightarrow> bool" where
  "is_function key = (key \<in> set method_names \<or> key \<in> set inherited_names)"

text \<open>The operations that evaluate no sub-template, by name.\<close>

definition simple_call :: "ext \<Rightarrow> string \<Rightarrow> json \<Rightarrow> json \<Rightarrow> json result" where
  "simple_call x key v options =
     (if key = ''get'' then tf_get v options
      else if key = ''static'' then tf_static v options
      else if key = ''substring'' then tf_substring v options
      else if key = ''length'' then tf_length v
      else if key = ''hash'' then tf_hash x v options
      else if key = ''join'' then tf_join v options
      else if key = ''split'' then tf_split v options
      else if key = ''filter'' then tf_filter v
      else if key = ''slice'' then tf_slice v options
      else if key = ''count'' then tf_count v
      else if key = ''case'' then tf_case v options
      else if key = ''htmlTag'' then tf_htmlTag x v options
      else if key = ''htmlTags'' then tf_htmlTags x v options
      else if key = ''htmlTagText'' then tf_htmlTagText x v options
      else if key = ''htmlTagsText'' then tf_htmlTagsText x v options
      else if key = ''htmlAttribute'' then tf_htmlAttribute x v options
      else if key = ''htmlTable'' then tf_htmlTable x v options
      else if key = ''replace'' then tf_replace x v options
      else if key = ''fromJson'' then tf_fromJson x v
      else if key = ''toJson'' then tf_toJson x v
      else if key = ''fromXml'' then tf_fromXml x v
      else if key = ''now'' then tf_now x
      else if key = ''lowerCase'' then tf_lowerCase x v
      else if key = ''upperCase'' then tf_upperCase x v
      else if key = ''camelCase'' then tf_camelCase x v
      else if key = ''kebabCase'' then tf_kebabCase x v
      else if key = ''snakeCase'' then tf_snakeCase x v
      else if key = ''nameCase'' then tf_nameCase x v
      else if key = ''capitalize'' then tf_capitalize x v
      else if key = ''deburr'' then tf_deburr x v
      else if key = ''assert'' then tf_assert x v options
      else proto_method x key v options)"

text \<open>
  \<open>new Transformation({get: pointer}).transform(value)\<close>, the shorthand that
  \<open>_object\<close>, \<open>_map\<close> and \<open>_array\<close> use for a template that is a string.
\<close>

definition transform_shorthand :: "string \<Rightarrow> json \<Rightarrow> json result" where
  "transform_shorthand pointer v =
     (if nullish v then Inr JNull
      else (case tf_get (cloneDeep v) (JStr pointer) of
              Inl e \<Rightarrow> Inl e
            | Inr out \<Rightarrow> if nullish out then Inr JNull else Inr out))"

text \<open>
  \<open>Transformation.transform\<close> with the operations that evaluate sub-templates:
  \<open>run_keys\<close> is the loop over the keys of the template, \<open>call\<close> is
  \<open>this['_' + key](output, this._template[key])\<close>, \<open>each_property\<close> is the body of
  \<open>_object\<close>, \<open>each_item\<close> of \<open>_map\<close>, \<open>each_template\<close> of \<open>_array\<close>.
  The keys of an array or of a string are indices, which name no function, so a
  template of that shape fails at its first key; the keys of a number or of a boolean
  are none.
\<close>

function (sequential) transform :: "ext \<Rightarrow> json \<Rightarrow> json \<Rightarrow> json result"
and run_keys :: "ext \<Rightarrow> (string \<times> json) list \<Rightarrow> json \<Rightarrow> json result"
and call :: "ext \<Rightarrow> string \<Rightarrow> json \<Rightarrow> json \<Rightarrow> json result"
and each_property :: "ext \<Rightarrow> (string \<times> json) list \<Rightarrow> json \<Rightarrow> (string \<times> json) list \<Rightarrow> json result"
and each_item :: "ext \<Rightarrow> json \<Rightarrow> json list \<Rightarrow> json list result"
and each_template :: "ext \<Rightarrow> json list \<Rightarrow> json \<Rightarrow> json list result"
where
  "transform x (JObj kvs) v =
     (if nullish v then Inr JNull else run_keys x kvs (cloneDeep v))"
| "transform x JUndefined v = (if nullish v then Inr JNull else Inl TypeError)"
| "transform x JNull v = (if nullish v then Inr JNull else Inl TypeError)"
| "transform x (JBool b) v = (if nullish v then Inr JNull else Inr (cloneDeep v))"
| "transform x (JNum n) v = (if nullish v then Inr JNull else Inr (cloneDeep v))"
| "transform x (JStr s) v =
     (if nullish v then Inr JNull
      else if s = [] then Inr (cloneDeep v) else Inl (UnknownFunction ''0''))"
| "transform x (JArr ts) v =
     (if nullish v then Inr JNull
      else if ts = [] then Inr (cloneDeep v) else Inl (UnknownFunction ''0''))"
| "run_keys x [] out = Inr out"
| "run_keys x ((key, options) # rest) out =
     (if \<not> is_function key then Inl (UnknownFunction key)
      else (case call x key out options of
              Inl e \<Rightarrow> Inl e
            | Inr out' \<Rightarrow> if nullish out' then Inr JNull else run_keys x rest out'))"
| "call x key v options =
     (if key = ''object'' then
        (case options of
           JObj kvs \<Rightarrow> each_property x kvs v []
         | JArr ts \<Rightarrow>
             (case each_template x ts v of
                Inl e \<Rightarrow> Inl e
              | Inr rs \<Rightarrow> Inr (JObj (zip (index_keys (length ts)) rs)))
         | JNull \<Rightarrow> Inl TypeError
         | _ \<Rightarrow> Inl ObjectNotObject)
      else if key = ''map'' then
        (case v of
           JArr items \<Rightarrow>
             (case each_item x options items of
                Inl e \<Rightarrow> Inl e
              | Inr rs \<Rightarrow> Inr (JArr rs))
         | _ \<Rightarrow> Inr JNull)
      else if key = ''array'' then
        (case options of
           JArr ts \<Rightarrow>
             (case each_template x ts v of
                Inl e \<Rightarrow> Inl e
              | Inr rs \<Rightarrow> Inr (JArr rs))
         | _ \<Rightarrow> Inl ArrayOptions)
      else if key = ''union'' then
        (case options of
           JArr ts \<Rightarrow>
             (case each_template x ts v of
                Inl e \<Rightarrow> Inl e
              | Inr rs \<Rightarrow> Inr (lodash_union x rs))
         | _ \<Rightarrow> Inl UnionOptions)
      else simple_call x key v options)"
| "each_property x [] v output = Inr (JObj output)"
| "each_property x ((key, t) # rest) v output =
     (case (case t of JStr pointer \<Rightarrow> transform_shorthand pointer v | _ \<Rightarrow> transform x t v) of
        Inl e \<Rightarrow> Inl e
      | Inr r \<Rightarrow> each_property x rest v (AList.update key r output))"
| "each_item x options [] = Inr []"
| "each_item x options (item # items) =
     (case (case options of
              JStr pointer \<Rightarrow> transform_shorthand pointer item
            | _ \<Rightarrow> transform x options item) of
        Inl e \<Rightarrow> Inl e
      | Inr r \<Rightarrow>
          (case each_item x options items of
             Inl e \<Rightarrow> Inl e
           | Inr rs \<Rightarrow> Inr (r # rs)))"
| "each_template x [] v = Inr []"
| "each_template x (t # ts) v =
     (case (case t of JStr pointer \<Rightarrow> transform_shorthand pointer v | _ \<Rightarrow> transform x t v) of
        Inl e \<Rightarrow> Inl e
      | Inr r \<Rightarrow>
          (case each_template x ts v of
             Inl e \<Rightarrow> Inl e
           | Inr rs \<Rightarrow> Inr (r # rs)))"
  by pat_completeness auto
termination
  apply (relation "inv_image (less_than <*lex*> less_than)
     (\<lambda>a. case a of
        Inl (Inl (x, t, v)) \<Rightarrow> (size t, 0)
      | Inl (Inr (Inl (x, kvs, out))) \<Rightarrow> (size_list (size_prod (\<lambda>_. 0) size) kvs, 0)
      | Inl (Inr (Inr (x, key, v, options))) \<Rightarrow> (size options, size v)
      | Inr (Inl (x, kvs, v, output)) \<Rightarrow> (size_list (size_prod (\<lambda>_. 0) size) kvs, 0)
      | Inr (Inr (Inl (x, options, items))) \<Rightarrow> (size options, size_list size items)
      | Inr (Inr (Inr (x, ts, v))) \<Rightarrow> (size_list size ts, 0))")
   apply (rule wf_inv_image, rule wf_lex_prod, rule wf_less_than, rule wf_less_than)
  apply simp_all
  done

section \<open>JSON-Pointer addressing\<close>



fun addressed :: "json \<Rightarrow> string list \<Rightarrow> json option" where
  "addressed v [] = Some v"
| "addressed (JObj kvs) (t # ts) =
     (case map_of kvs t of None \<Rightarrow> None | Some w \<Rightarrow> addressed w ts)"
| "addressed (JArr xs) (t # ts) =
     (case array_index t of
        None \<Rightarrow> None
      | Some i \<Rightarrow> if i < length xs then addressed (xs ! i) ts else None)"
| "addressed _ (t # ts) = None"

section \<open>The execution engine\<close>

text \<open>Modelled from the spec: the class Script (\<open>classes/script\<close>, which the tests
  require) is not among the sources; the engine below follows section 4.2 of the
  specification. A step is a label or an operation object.\<close>

datatype step = Label string | Operation "(string \<times> json) list"

text \<open>Modelled from the spec: the compiled Program of section 3 (steps, the label table
  resolved at load time, the step budget) with the busy flag its instance owns.\<close>

record program =
  steps :: "step list"
  labels :: "(string \<times> nat) list"
  maxSteps :: nat
  busy :: bool


text \<open>Modelled from the spec: the error taxonomy of section 7. \<open>NotSpecified\<close> marks a
  situation the specification says nothing about.\<close>

datatype engine_error =
    DefinitionError string
  | ReentrancyError
  | StepBudgetError
  | OperationError error
  | CollaboratorError string
  | NotSpecified string

text \<open>Modelled from the spec: the two capabilities the host injects (section 6). The
  query capability receives the descriptor, whether the caller's context is threaded
  through, and the argument bindings; a rejection is the left alternative.\<close>

record capabilities =
  query_cap :: "json \<Rightarrow> bool \<Rightarrow> json \<Rightarrow> string + json"
  request_cap :: "json \<Rightarrow> string + json"



subsection \<open>Writing into the document\<close>

text \<open>Modelled from the spec: writing a value at a path of the document (section 3:
  the document is addressed by JSON-Pointer-style paths). The empty path replaces the
  whole value; a property of an object is replaced or added; a missing intermediate
  property is created as an object. The specification says nothing about writing
  through an array or a primitive.\<close>

fun set_path :: "json \<Rightarrow> string list \<Rightarrow> json \<Rightarrow> engine_error + json" where
  "set_path d [] v = Inr v"
| "set_path (JObj kvs) (t # ts) v =
     (case set_path (case map_of kvs t of None \<Rightarrow> JUndefined | Some c \<Rightarrow> c) ts v of
        Inl e \<Rightarrow> Inl e
      | Inr c' \<Rightarrow> Inr (JObj (AList.update t c' kvs)))"
| "set_path JUndefined (t # ts) v =
     (case set_path JUndefined ts v of
        Inl e \<Rightarrow> Inl e
      | Inr c' \<Rightarrow> Inr (JObj [(t, c')]))"
| "set_path _ (t # ts) v = Inl (NotSpecified ''write through a value that is no object'')"


text \<open>Modelled from the spec: a path given as a pointer string; the tokens are those of
  the jsonpointer package.\<close>

definition path_tokens :: "string \<Rightarrow> engine_error + string list" where
  "path_tokens p =
     (case compilePointer p of
        Inl e \<Rightarrow> Inl (OperationError e)
      | Inr ts \<Rightarrow> Inr (map untilde (tl ts)))"

definition write_at :: "json \<Rightarrow> string \<Rightarrow> json \<Rightarrow> engine_error + json" where
  "write_at d p v =
     (case path_tokens p of
        Inl e \<Rightarrow> Inl e
      | Inr ts \<Rightarrow> set_path d ts v)"

subsection \<open>Operands\<close>

text \<open>Modelled from the spec: an operand or argument is "a literal or a nested
  transformation/path" (section 4.2): an object is a transformation template applied
  to the document, a string that starts with \<open>/\<close> is a path into the document,
  anything else is a literal.\<close>

definition eval_operand :: "ext \<Rightarrow> json \<Rightarrow> json \<Rightarrow> engine_error + json" where
  "eval_operand x doc v =
     (case v of
        JObj t \<Rightarrow>
          (case transform x (JObj t) doc of
             Inl e \<Rightarrow> Inl (OperationError e)
           | Inr r \<Rightarrow> Inr r)
      | JStr s \<Rightarrow>
          (if take 1 s = ''/'' then
             (case transform_shorthand s doc of
                Inl e \<Rightarrow> Inl (OperationError e)
              | Inr r \<Rightarrow> Inr r)
           else Inr (JStr s))
      | _ \<Rightarrow> Inr v)"

fun eval_arguments :: "ext \<Rightarrow> json \<Rightarrow> (string \<times> json) list \<Rightarrow> engine_error + (string \<times> json) list" where
  "eval_arguments x doc [] = Inr []"
| "eval_arguments x doc ((k, a) # rest) =
     (case eval_operand x doc a of
        Inl e \<Rightarrow> Inl e
      | Inr r \<Rightarrow>
          (case eval_arguments x doc rest of
             Inl e \<Rightarrow> Inl e
           | Inr rs \<Rightarrow> Inr ((k, r) # rs)))"

subsection \<open>Comparison operators\<close>

text \<open>Modelled from the spec: the operators of a jump are JavaScript's. Two arrays or
  objects are the same only as references, which two evaluated operands never are.\<close>

definition is_reference :: "json \<Rightarrow> bool" where
  "is_reference v = (case v of JArr _ \<Rightarrow> True | JObj _ \<Rightarrow> True | _ \<Rightarrow> False)"

definition strict_eq :: "json \<Rightarrow> json \<Rightarrow> bool" where
  "strict_eq a b = (a = b \<and> \<not> is_reference a)"

definition to_primitive :: "json \<Rightarrow> json" where
  "to_primitive v = (if is_reference v then JStr (to_string v) else v)"

definition numbers_rel :: "(int \<Rightarrow> int \<Rightarrow> bool) \<Rightarrow> json \<Rightarrow> json \<Rightarrow> bool" where
  "numbers_rel R a b =
     (case to_number a of
        None \<Rightarrow> False
      | Some m \<Rightarrow> (case to_number b of None \<Rightarrow> False | Some n \<Rightarrow> R m n))"

definition loose_eq :: "json \<Rightarrow> json \<Rightarrow> bool" where
  "loose_eq a b =
     (if nullish a \<or> nullish b then nullish a \<and> nullish b
      else if is_reference a \<and> is_reference b then False
      else if typeof a = typeof b \<and> \<not> is_reference a \<and> \<not> is_reference b then a = b
      else if typeof (to_primitive a) = ''string'' \<and> typeof (to_primitive b) = ''string''
        then to_primitive a = to_primitive b
      else numbers_rel (=) (to_primitive a) (to_primitive b))"

fun str_less :: "string \<Rightarrow> string \<Rightarrow> bool" where
  "str_less [] [] = False"
| "str_less [] (d # ds) = True"
| "str_less (c # cs) [] = False"
| "str_less (c # cs) (d # ds) =
     ((of_char c :: nat) < of_char d \<or> (c = d \<and> str_less cs ds))"

definition js_less :: "json \<Rightarrow> json \<Rightarrow> bool" where
  "js_less a b =
     (case to_primitive a of
        JStr s \<Rightarrow>
          (case to_primitive b of
             JStr t \<Rightarrow> str_less s t
           | q \<Rightarrow> numbers_rel (<) (JStr s) q)
      | p \<Rightarrow> numbers_rel (<) p (to_primitive b))"

definition js_less_eq :: "json \<Rightarrow> json \<Rightarrow> bool" where
  "js_less_eq a b =
     (case to_primitive a of
        JStr s \<Rightarrow>
          (case to_primitive b of
             JStr t \<Rightarrow> \<not> str_less t s
           | q \<Rightarrow> numbers_rel (\<le>) (JStr s) q)
      | p \<Rightarrow> numbers_rel (\<le>) p (to_primitive b))"

text \<open>Modelled from the spec: "compare with operator (supported: \<open>==\<close>, \<open>===\<close>, \<open>!=\<close>,
  \<open>!==\<close>, \<open><\<close>, \<open>>\<close>, \<open><=\<close>, \<open>>=\<close>, \<open>in\<close>; unrecognized operator evaluates to false)".
  \<open>in\<close> holds when the left operand is an item of the array on the right.\<close>

definition compare :: "string \<Rightarrow> json \<Rightarrow> json \<Rightarrow> bool" where
  "compare operator l r =
     (if operator = ''=='' then loose_eq l r
      else if operator = ''==='' then strict_eq l r
      else if operator = ''!='' then \<not> loose_eq l r
      else if operator = ''!=='' then \<not> strict_eq l r
      else if operator = ''<'' then js_less l r
      else if operator = ''>'' then js_less r l
      else if operator = ''<='' then js_less_eq l r
      else if operator = ''>='' then js_less_eq r l
      else if operator = ''in'' then (case r of JArr xs \<Rightarrow> list_ex (strict_eq l) xs | _ \<Rightarrow> False)
      else False)"

subsection \<open>The phases of an operation step\<close>

text \<open>Modelled from the spec: a label resolves to its index in the label table; \<open>end\<close>
  is the implicit address one past the last step.\<close>

definition resolve_label :: "program \<Rightarrow> string \<Rightarrow> engine_error + nat" where
  "resolve_label P l =
     (case map_of (labels P) l of
        Some i \<Rightarrow> Inr i
      | None \<Rightarrow> if l = ''end'' then Inr (length (steps P)) else Inl (NotSpecified ''unknown label''))"

text \<open>Modelled from the spec: the \<open>query\<close> phase (section 4.2, step 1). A string is the
  query itself; an object carries \<open>query\<close>, \<open>arguments\<close>, \<open>resultProperty\<close> and
  \<open>runInContext\<close>. The result is written to \<open>/result\<close> unless \<open>resultProperty\<close> names
  another path; the empty path replaces the whole document.\<close>

definition query_phase :: "ext \<Rightarrow> capabilities \<Rightarrow> json \<Rightarrow> json \<Rightarrow> engine_error + json" where
  "query_phase x caps doc q =
     (let descriptor = (case q of JStr s \<Rightarrow> JStr s | _ \<Rightarrow> own_prop q ''query'');
          bindings = (case own_prop q ''arguments'' of JObj kvs \<Rightarrow> kvs | _ \<Rightarrow> []);
          target = (case own_prop q ''resultProperty'' of JStr p \<Rightarrow> p | _ \<Rightarrow> ''/result'');
          in_context = (own_prop q ''runInContext'' = JBool True)
      in case eval_arguments x doc bindings of
           Inl e \<Rightarrow> Inl e
         | Inr args \<Rightarrow>
             (case query_cap caps descriptor in_context (JObj args) of
                Inl msg \<Rightarrow> Inl (CollaboratorError msg)
              | Inr result \<Rightarrow> write_at doc target result))"

text \<open>Modelled from the spec: the \<open>request\<close> phase (step 2). A string is the url; the
  url and the cookies may be paths into the document; the response the capability
  gives (\<open>headers\<close>, \<open>body\<close>, \<open>cookies\<close>) is written to \<open>/result\<close>.\<close>

definition request_phase :: "ext \<Rightarrow> capabilities \<Rightarrow> json \<Rightarrow> json \<Rightarrow> engine_error + json" where
  "request_phase x caps doc r =
     (let fields = (case r of JObj kvs \<Rightarrow> kvs | _ \<Rightarrow> [(''url'', r)])
      in case eval_operand x doc (own_prop (JObj fields) ''url'') of
           Inl e \<Rightarrow> Inl e
         | Inr url \<Rightarrow>
             (case eval_operand x doc (own_prop (JObj fields) ''cookies'') of
                Inl e \<Rightarrow> Inl e
              | Inr cookies \<Rightarrow>
                  (case request_cap caps
                          (JObj (AList.update ''cookies'' cookies (AList.update ''url'' url fields))) of
                     Inl msg \<Rightarrow> Inl (CollaboratorError msg)
                   | Inr response \<Rightarrow> write_at doc ''/result'' response)))"

text \<open>Modelled from the spec: the transformation phase (step 3 and the closing sentence
  of the list): \<open>transform\<close> carries a template; \<open>object\<close> and every other key that is
  not reserved is a Transformation operation of that name. Each runs against
  the document and replaces it.\<close>

definition reserved :: "string \<Rightarrow> bool" where
  "reserved k = (k \<in> {''query'', ''request'', ''increment'', ''jump''})"

fun transform_phase :: "ext \<Rightarrow> (string \<times> json) list \<Rightarrow> json \<Rightarrow> engine_error + json" where
  "transform_phase x [] doc = Inr doc"
| "transform_phase x ((k, a) # rest) doc =
     (if reserved k then transform_phase x rest doc
      else (case transform x (if k = ''transform'' then a else JObj [(k, a)]) doc of
              Inl e \<Rightarrow> Inl (OperationError e)
            | Inr doc' \<Rightarrow> transform_phase x rest doc'))"

text \<open>Modelled from the spec: \<open>increment\<close> (step 4): "read the numeric value there
  (absent: treated as -1 so the first increment yields 0), add 1, and write it back".\<close>

definition increment_phase :: "json \<Rightarrow> json \<Rightarrow> engine_error + json" where
  "increment_phase doc p =
     (case p of
        JStr path \<Rightarrow>
          (case path_tokens path of
             Inl e \<Rightarrow> Inl e
           | Inr ts \<Rightarrow>
               (case addressed doc ts of
                  None \<Rightarrow> set_path doc ts (JNum 0)
                | Some (JNum n) \<Rightarrow> set_path doc ts (JNum (n + 1))
                | Some JUndefined \<Rightarrow> set_path doc ts (JNum 0)
                | Some JNull \<Rightarrow> set_path doc ts (JNum 0)
                | Some _ \<Rightarrow> Inl (NotSpecified ''increment of a non-number'')))
      | _ \<Rightarrow> Inl (NotSpecified ''increment without a path''))"

text \<open>Modelled from the spec: \<open>jump\<close> (step 5): \<open>left\<close> and \<open>right\<close> default to true,
  \<open>operator\<close> to \<open>===\<close>; a string is the shorthand for \<open>{to: label}\<close>. The result is the
  next program counter: the index of the label when the comparison holds, the next
  step otherwise.\<close>

definition jump_phase :: "ext \<Rightarrow> program \<Rightarrow> json \<Rightarrow> nat \<Rightarrow> json \<Rightarrow> engine_error + nat" where
  "jump_phase x P doc pc j =
     (let spec = (case j of JStr l \<Rightarrow> JObj [(''to'', JStr l)] | _ \<Rightarrow> j);
          left = defaults_prop spec ''left'' (JBool True);
          right = defaults_prop spec ''right'' (JBool True);
          operator = (case own_prop spec ''operator'' of JStr s \<Rightarrow> s | _ \<Rightarrow> ''==='')
      in case eval_operand x doc left of
           Inl e \<Rightarrow> Inl e
         | Inr l \<Rightarrow>
             (case eval_operand x doc right of
                Inl e \<Rightarrow> Inl e
              | Inr r \<Rightarrow>
                  if compare operator l r then
                    (case own_prop spec ''to'' of
                       JStr target \<Rightarrow> resolve_label P target
                     | _ \<Rightarrow> Inl (NotSpecified ''jump without a label''))
                  else Inr (pc + 1)))"

text \<open>Modelled from the spec: one operation step applies, each if present and in this
  order, query, request, transformation, increment, jump, and yields the new document
  and the next program counter.\<close>

definition exec_operation ::
  "ext \<Rightarrow> capabilities \<Rightarrow> program \<Rightarrow> (string \<times> json) list \<Rightarrow> json \<Rightarrow> nat \<Rightarrow> engine_error + (json \<times> nat)" where
  "exec_operation x caps P kvs doc pc =
     (case (case map_of kvs ''query'' of None \<Rightarrow> Inr doc | Some q \<Rightarrow> query_phase x caps doc q) of
        Inl e \<Rightarrow> Inl e
      | Inr d1 \<Rightarrow>
     (case (case map_of kvs ''request'' of None \<Rightarrow> Inr d1 | Some r \<Rightarrow> request_phase x caps d1 r) of
        Inl e \<Rightarrow> Inl e
      | Inr d2 \<Rightarrow>
     (case transform_phase x kvs d2 of
        Inl e \<Rightarrow> Inl e
      | Inr d3 \<Rightarrow>
     (case (case map_of kvs ''increment'' of None \<Rightarrow> Inr d3 | Some p \<Rightarrow> increment_phase d3 p) of
        Inl e \<Rightarrow> Inl e
      | Inr d4 \<Rightarrow>
     (case (case map_of kvs ''jump'' of None \<Rightarrow> Inr (pc + 1) | Some j \<Rightarrow> jump_phase x P d4 pc j) of
        Inl e \<Rightarrow> Inl e
      | Inr pc' \<Rightarrow> Inr (d4, pc'))))))"

subsection \<open>The loop and run\<close>

text \<open>Modelled from the spec: the Execution State of section 3.\<close>

record exec_state =
  document :: json
  pc :: nat
  stepsExecuted :: nat

text \<open>Modelled from the spec: one step: a label is a no-op that advances the
  program counter; an operation is applied.\<close>

definition exec_step :: "ext \<Rightarrow> capabilities \<Rightarrow> program \<Rightarrow> exec_state \<Rightarrow> engine_error + exec_state" where
  "exec_step x caps P s =
     (case steps P ! pc s of
        Label _ \<Rightarrow> Inr (s\<lparr>pc := pc s + 1\<rparr>)
      | Operation kvs \<Rightarrow>
          (case exec_operation x caps P kvs (document s) (pc s) of
             Inl e \<Rightarrow> Inl e
           | Inr (d, n) \<Rightarrow> Inr (s\<lparr>document := d, pc := n\<rparr>)))"

text \<open>Modelled from the spec: the loop of section 4.2: until the program counter
  passes the end, process the step, count it (labels count too) and fail with the
  bounded-loop error once the count exceeds \<open>maxSteps\<close>. The result comes with the
  number of steps that were processed.\<close>

function exec :: "ext \<Rightarrow> capabilities \<Rightarrow> program \<Rightarrow> exec_state \<Rightarrow> (engine_error + json) \<times> nat" where
  "exec x caps P s =
     (if pc s \<ge> length (steps P) then (Inr (document s), stepsExecuted s)
      else (case exec_step x caps P s of
              Inl e \<Rightarrow> (Inl e, stepsExecuted s)
            | Inr s' \<Rightarrow>
                if stepsExecuted s + 1 > maxSteps P then (Inl StepBudgetError, stepsExecuted s + 1)
                else exec x caps P (s'\<lparr>stepsExecuted := stepsExecuted s + 1\<rparr>)))"
  by pat_completeness auto
termination
  by (relation "measure (\<lambda>(x, caps, P, s). maxSteps P + 1 - stepsExecuted s)") auto

definition initial_state :: "json \<Rightarrow> exec_state" where
  "initial_state input = \<lparr> document = input, pc = 0, stepsExecuted = 0 \<rparr>"

text \<open>Modelled from the spec: \<open>run\<close> (section 4.2, reentrancy): a call fails at once when
  the busy flag is set; otherwise the flag is set on entry and cleared when the call
  settles, whatever the outcome. The call is in two parts, so that the state
  in which a run is pending is a value: \<open>run_enter\<close> is what happens at the call,
  \<open>run_settle\<close> what happens until the result is there.\<close>

definition run_enter :: "program \<Rightarrow> engine_error + program" where
  "run_enter P = (if busy P then Inl ReentrancyError else Inr (P\<lparr>busy := True\<rparr>))"

definition run_settle ::
  "ext \<Rightarrow> capabilities \<Rightarrow> program \<Rightarrow> json \<Rightarrow> (engine_error + json) \<times> program" where
  "run_settle x caps P input = (fst (exec x caps P (initial_state input)), P\<lparr>busy := False\<rparr>)"

definition run ::
  "ext \<Rightarrow> capabilities \<Rightarrow> program \<Rightarrow> json \<Rightarrow> (engine_error + json) \<times> program" where
  "run x caps P input =
     (case run_enter P of
        Inl e \<Rightarrow> (Inl e, P)
      | Inr P' \<Rightarrow> run_settle x caps P' input)"


section \<open>Computing and applying changes\<close>

text \<open>Modelled from the spec: deep equality of two values, which \<open>changed\<close> uses per key
  ("by deep equality per key"): arrays are equal element by element, objects when they
  have the same keys with equal values, whatever the order of the keys.\<close>

fun isEqual :: "json \<Rightarrow> json \<Rightarrow> bool"
and isEqual_items :: "json list \<Rightarrow> json list \<Rightarrow> bool"
and isEqual_props :: "(string \<times> json) list \<Rightarrow> (string \<times> json) list \<Rightarrow> bool" where
  "isEqual (JArr xs) b = (case b of JArr ys \<Rightarrow> isEqual_items xs ys | _ \<Rightarrow> False)"
| "isEqual (JObj kvs) b =
     (case b of JObj kws \<Rightarrow> length kvs = length kws \<and> isEqual_props kvs kws | _ \<Rightarrow> False)"
| "isEqual JUndefined b = (b = JUndefined)"
| "isEqual JNull b = (b = JNull)"
| "isEqual (JBool p) b = (b = JBool p)"
| "isEqual (JNum n) b = (b = JNum n)"
| "isEqual (JStr s) b = (b = JStr s)"
| "isEqual_items [] ys = (ys = [])"
| "isEqual_items (x # xs) ys =
     (case ys of [] \<Rightarrow> False | y # ys' \<Rightarrow> isEqual x y \<and> isEqual_items xs ys')"
| "isEqual_props [] kws = True"
| "isEqual_props ((k, v) # kvs) kws =
     ((case map_of kws k of None \<Rightarrow> False | Some w \<Rightarrow> isEqual v w) \<and> isEqual_props kvs kws)"

text \<open>An object has each key once: the invariant of the representation.\<close>

fun wf_json :: "json \<Rightarrow> bool"
and wf_items :: "json list \<Rightarrow> bool"
and wf_props :: "(string \<times> json) list \<Rightarrow> bool" where
  "wf_json (JArr xs) = wf_items xs"
| "wf_json (JObj kvs) = (distinct (map fst kvs) \<and> wf_props kvs)"
| "wf_json JUndefined = True"
| "wf_json JNull = True"
| "wf_json (JBool _) = True"
| "wf_json (JNum _) = True"
| "wf_json (JStr _) = True"
| "wf_items [] = True"
| "wf_items (x # xs) = (wf_json x \<and> wf_items xs)"
| "wf_props [] = True"
| "wf_props ((k, v) # kvs) = (wf_json v \<and> wf_props kvs)"

text \<open>Modelled from the spec: the value of a key for the comparison; a key that is
  absent counts as null, which is how a key that "disappeared in right" is reported and
  why the test "can detect changes on object" reports neither \<open>f\<close> (null on the left,
  absent on the right) nor \<open>g\<close> (absent on the left, null on the right).\<close>

definition value_or_null :: "(string \<times> json) list \<Rightarrow> string \<Rightarrow> json" where
  "value_or_null kvs k =
     (case map_of kvs k of None \<Rightarrow> JNull | Some v \<Rightarrow> if v = JUndefined then JNull else v)"

text \<open>Modelled from the spec: \<open>changed({left, right})\<close>, the operation \<open>_changed\<close> that
  the tests use and that is not in the \<open>transformation.js\<close> under the sources:
  "returns an object containing only keys whose value differs between left and right (by
  deep equality per key), value taken from right; keys that disappeared in right are
  reported with value null; keys unchanged are omitted". The keys are those of
  \<open>left\<close> followed by the new keys of \<open>right\<close>.\<close>

definition changed_keys :: "(string \<times> json) list \<Rightarrow> (string \<times> json) list \<Rightarrow> string list" where
  "changed_keys left right = map fst left @ filter (\<lambda>k. k \<notin> fst ` set left) (map fst right)"

definition changed_objects :: "(string \<times> json) list \<Rightarrow> (string \<times> json) list \<Rightarrow> (string \<times> json) list" where
  "changed_objects left right =
     map (\<lambda>k. (k, value_or_null right k))
       (filter (\<lambda>k. \<not> isEqual (value_or_null left k) (value_or_null right k))
          (changed_keys left right))"

text \<open>Modelled from the spec: \<open>change({target, changes})\<close>, the operation \<open>_change\<close>,
  not in the \<open>transformation.js\<close> under the sources: the "structural inverse of compute
  changes: same-key overwrite, no deep merge of nested objects". A change of null is
  how \<open>changed\<close> reports a key that disappeared, so it removes the key, as the test
  "can apply changes to object" expects of key \<open>b\<close>.\<close>

definition apply_change :: "string \<times> json \<Rightarrow> (string \<times> json) list \<Rightarrow> (string \<times> json) list" where
  "apply_change c target =
     (if nullish (snd c) then AList.delete (fst c) target
      else AList.update (fst c) (snd c) target)"

definition change_objects :: "(string \<times> json) list \<Rightarrow> (string \<times> json) list \<Rightarrow> (string \<times> json) list" where
  "change_objects target changes = fold apply_change changes target"

text \<open>Modelled from the spec: the two operations on an input value; \<open>left\<close>, \<open>right\<close>,
  \<open>target\<close> and \<open>changes\<close> are operands (a path into the input, a template or a
  literal) that must yield objects.\<close>

definition tf_changed :: "ext \<Rightarrow> json \<Rightarrow> json \<Rightarrow> engine_error + json" where
  "tf_changed x v options =
     (case eval_operand x v (own_prop options ''left'') of
        Inl e \<Rightarrow> Inl e
      | Inr l \<Rightarrow>
          (case eval_operand x v (own_prop options ''right'') of
             Inl e \<Rightarrow> Inl e
           | Inr r \<Rightarrow>
               (case l of
                  JObj left \<Rightarrow>
                    (case r of
                       JObj right \<Rightarrow> Inr (JObj (changed_objects left right))
                     | _ \<Rightarrow> Inl (NotSpecified ''changed on a value that is no object''))
                | _ \<Rightarrow> Inl (NotSpecified ''changed on a value that is no object''))))"

definition tf_change :: "ext \<Rightarrow> json \<Rightarrow> json \<Rightarrow> engine_error + json" where
  "tf_change x v options =
     (case eval_operand x v (own_prop options ''target'') of
        Inl e \<Rightarrow> Inl e
      | Inr t \<Rightarrow>
          (case eval_operand x v (own_prop options ''changes'') of
             Inl e \<Rightarrow> Inl e
           | Inr c \<Rightarrow>
               (case t of
                  JObj target \<Rightarrow>
                    (case c of
                       JObj changes \<Rightarrow> Inr (JObj (change_objects target changes))
                     | _ \<Rightarrow> Inl (NotSpecified ''change on a value that is no object''))
                | _ \<Rightarrow> Inl (NotSpecified ''change on a value that is no object''))))"


section \<open>Objects with identity and the assignments of a transformation\<close>

text \<open>
  Whether \<open>transform\<close> changes an object of its caller depends on which object an
  assignment hits, so here arrays and objects carry their identity (an address).
  Two nodes with the same address are the same object. The only assignments of
  \<open>transformation.js\<close> to an object that exists before the call are those of
  \<open>_.defaults(options, ...)\<close> in \<open>_hash\<close> and \<open>_slice\<close>, which fill the missing
  properties of the options object in place; \<open>_object\<close> and \<open>_map\<close> assign to the
  object or array they have just made, and every other operation only reads. The
  values between the operations are copies (\<open>_.cloneDeep\<close>) or results, so they flow
  by value, as in \<open>transform\<close>; the template is the tree of its objects, each at one
  place.
\<close>

datatype tjson =
    TUndefined
  | TNull
  | TBool bool
  | TNum int
  | TStr string
  | TArr nat "tjson list"
  | TObj nat "(string \<times> tjson) list"

text \<open>The value without the identities.\<close>

fun erase :: "tjson \<Rightarrow> json"
and erase_items :: "tjson list \<Rightarrow> json list"
and erase_props :: "(string \<times> tjson) list \<Rightarrow> (string \<times> json) list" where
  "erase TUndefined = JUndefined"
| "erase TNull = JNull"
| "erase (TBool b) = JBool b"
| "erase (TNum n) = JNum n"
| "erase (TStr s) = JStr s"
| "erase (TArr a xs) = JArr (erase_items xs)"
| "erase (TObj a kvs) = JObj (erase_props kvs)"
| "erase_items [] = []"
| "erase_items (x # xs) = erase x # erase_items xs"
| "erase_props [] = []"
| "erase_props ((k, v) # kvs) = (k, erase v) # erase_props kvs"

text \<open>The addresses of the objects and arrays of a value.\<close>

fun addrs :: "tjson \<Rightarrow> nat list"
and addrs_items :: "tjson list \<Rightarrow> nat list"
and addrs_props :: "(string \<times> tjson) list \<Rightarrow> nat list" where
  "addrs TUndefined = []"
| "addrs TNull = []"
| "addrs (TBool b) = []"
| "addrs (TNum n) = []"
| "addrs (TStr s) = []"
| "addrs (TArr a xs) = a # addrs_items xs"
| "addrs (TObj a kvs) = a # addrs_props kvs"
| "addrs_items [] = []"
| "addrs_items (x # xs) = addrs x @ addrs_items xs"
| "addrs_props [] = []"
| "addrs_props ((k, v) # kvs) = addrs v @ addrs_props kvs"

text \<open>An assignment: the object at the address gets the property.\<close>

type_synonym assignment = "nat \<times> string"

text \<open>\<open>_.defaults(options, {k1: ..., k2: ...})\<close>: each of the keys that is undefined
  in \<open>options\<close> is assigned, in the object \<open>options\<close> itself. Options that are no
  object (null, undefined, a primitive) are wrapped in a new object first.\<close>

fun defaults_assignments :: "tjson \<Rightarrow> string list \<Rightarrow> assignment list" where
  "defaults_assignments (TObj a kvs) ks =
     map (\<lambda>k. (a, k)) (filter (\<lambda>k. own_prop (erase (TObj a kvs)) k = JUndefined) ks)"
| "defaults_assignments (TArr a xs) ks =
     map (\<lambda>k. (a, k)) (filter (\<lambda>k. own_prop (erase (TArr a xs)) k = JUndefined) ks)"
| "defaults_assignments _ ks = []"

text \<open>The assignments a single operation without sub-templates makes to its options:
  \<open>_hash\<close> fills \<open>encoding\<close> and \<open>algorithm\<close>; \<open>_slice\<close> fills \<open>from\<close> and \<open>to\<close>,
  after its check that the value is an array.\<close>

definition simple_assignments :: "string \<Rightarrow> json \<Rightarrow> tjson \<Rightarrow> assignment list" where
  "simple_assignments key v options =
     (if key = ''hash'' then defaults_assignments options [''encoding'', ''algorithm'']
      else if key = ''slice'' \<and> isArray v then defaults_assignments options [''from'', ''to'']
      else [])"

text \<open>
  \<open>Transformation.transform\<close> once more, on a template with identities: the same
  functions as \<open>transform\<close>, \<open>run_keys\<close>, \<open>call\<close>, \<open>each_property\<close>, \<open>each_item\<close> and
  \<open>each_template\<close>, each giving, next to its result, the assignments made to
  objects of the template up to the point where it returns or throws.
\<close>

function (sequential) wtransform :: "ext \<Rightarrow> tjson \<Rightarrow> json \<Rightarrow> assignment list \<times> json result"
and wrun_keys :: "ext \<Rightarrow> (string \<times> tjson) list \<Rightarrow> json \<Rightarrow> assignment list \<times> json result"
and wcall :: "ext \<Rightarrow> string \<Rightarrow> json \<Rightarrow> tjson \<Rightarrow> assignment list \<times> json result"
and weach_property ::
  "ext \<Rightarrow> (string \<times> tjson) list \<Rightarrow> json \<Rightarrow> (string \<times> json) list \<Rightarrow> assignment list \<times> json result"
and weach_item :: "ext \<Rightarrow> tjson \<Rightarrow> json list \<Rightarrow> assignment list \<times> json list result"
and weach_template :: "ext \<Rightarrow> tjson list \<Rightarrow> json \<Rightarrow> assignment list \<times> json list result"
where
  "wtransform x (TObj a kvs) v =
     (if nullish v then ([], Inr JNull) else wrun_keys x kvs (cloneDeep v))"
| "wtransform x t v = ([], transform x (erase t) v)"
| "wrun_keys x [] out = ([], Inr out)"
| "wrun_keys x ((key, options) # rest) out =
     (if \<not> is_function key then ([], Inl (UnknownFunction key))
      else (case wcall x key out options of
              (w, Inl e) \<Rightarrow> (w, Inl e)
            | (w, Inr out') \<Rightarrow>
                if nullish out' then (w, Inr JNull)
                else (case wrun_keys x rest out' of (w', r) \<Rightarrow> (w @ w', r))))"
| "wcall x key v options =
     (if key = ''object'' then
        (case options of
           TObj a kvs \<Rightarrow> weach_property x kvs v []
         | TArr a ts \<Rightarrow>
             (case weach_template x ts v of
                (w, Inl e) \<Rightarrow> (w, Inl e)
              | (w, Inr rs) \<Rightarrow> (w, Inr (JObj (zip (index_keys (length ts)) rs))))
         | TNull \<Rightarrow> ([], Inl TypeError)
         | _ \<Rightarrow> ([], Inl ObjectNotObject))
      else if key = ''map'' then
        (case v of
           JArr items \<Rightarrow>
             (case weach_item x options items of
                (w, Inl e) \<Rightarrow> (w, Inl e)
              | (w, Inr rs) \<Rightarrow> (w, Inr (JArr rs)))
         | _ \<Rightarrow> ([], Inr JNull))
      else if key = ''array'' then
        (case options of
           TArr a ts \<Rightarrow>
             (case weach_template x ts v of
                (w, Inl e) \<Rightarrow> (w, Inl e)
              | (w, Inr rs) \<Rightarrow> (w, Inr (JArr rs)))
         | _ \<Rightarrow> ([], Inl ArrayOptions))
      else if key = ''union'' then
        (case options of
           TArr a ts \<Rightarrow>
             (case weach_template x ts v of
                (w, Inl e) \<Rightarrow> (w, Inl e)
              | (w, Inr rs) \<Rightarrow> (w, Inr (lodash_union x rs)))
         | _ \<Rightarrow> ([], Inl UnionOptions))
      else (simple_assignments key v options, simple_call x key v (erase options)))"
| "weach_property x [] v output = ([], Inr (JObj output))"
| "weach_property x ((key, t) # rest) v output =
     (case (case t of TStr pointer \<Rightarrow> ([], transform_shorthand pointer v) | _ \<Rightarrow> wtransform x t v) of
        (w, Inl e) \<Rightarrow> (w, Inl e)
      | (w, Inr r) \<Rightarrow>
          (case weach_property x rest v (AList.update key r output) of (w', r') \<Rightarrow> (w @ w', r')))"
| "weach_item x options [] = ([], Inr [])"
| "weach_item x options (item # items) =
     (case (case options of
              TStr pointer \<Rightarrow> ([], transform_shorthand pointer item)
            | _ \<Rightarrow> wtransform x options item) of
        (w, Inl e) \<Rightarrow> (w, Inl e)
      | (w, Inr r) \<Rightarrow>
          (case weach_item x options items of
             (w', Inl e) \<Rightarrow> (w @ w', Inl e)
           | (w', Inr rs) \<Rightarrow> (w @ w', Inr (r # rs))))"
| "weach_template x [] v = ([], Inr [])"
| "weach_template x (t # ts) v =
     (case (case t of TStr pointer \<Rightarrow> ([], transform_shorthand pointer v) | _ \<Rightarrow> wtransform x t v) of
        (w, Inl e) \<Rightarrow> (w, Inl e)
      | (w, Inr r) \<Rightarrow>
          (case weach_template x ts v of
             (w', Inl e) \<Rightarrow> (w @ w', Inl e)
           | (w', Inr rs) \<Rightarrow> (w @ w', Inr (r # rs))))"
  by pat_completeness auto
termination
  apply (relation "inv_image (less_than <*lex*> less_than)
     (\<lambda>a. case a of
        Inl (Inl (x, t, v)) \<Rightarrow> (size t, 0)
      | Inl (Inr (Inl (x, kvs, out))) \<Rightarrow> (size_list (size_prod (\<lambda>_. 0) size) kvs, 0)
      | Inl (Inr (Inr (x, key, v, options))) \<Rightarrow> (size options, size v)
      | Inr (Inl (x, kvs, v, output)) \<Rightarrow> (size_list (size_prod (\<lambda>_. 0) size) kvs, 0)
      | Inr (Inr (Inl (x, options, items))) \<Rightarrow> (size options, size_list size items)
      | Inr (Inr (Inr (x, ts, v))) \<Rightarrow> (size_list size ts, 0))")
   apply (rule wf_inv_image, rule wf_lex_prod, rule wf_less_than, rule wf_less_than)
  apply simp_all
  done


section \<open>Values for the examples\<close>

text \<open>A record of library functions for evaluating examples; none of the examples
  reaches a library.\<close>

definition example_ext :: ext where
  "example_ext =
     \<lparr> lodash_lowerCase = id, lodash_upperCase = id, lodash_camelCase = id,
       lodash_kebabCase = id, lodash_snakeCase = id, lodash_capitalize = id,
       lodash_deburr = id,
       lodash_union = (\<lambda>rs. JArr (concat (map (\<lambda>r. case r of JArr xs \<Rightarrow> xs | _ \<Rightarrow> []) rs))),
       str_toLowerCase = id, str_toUpperCase = id, str_trim = id,
       str_replace = (\<lambda>s search rep. Inr (JStr s)),
       crypto_hash = (\<lambda>alg enc data. Inr (JStr [])),
       json_stringify = (\<lambda>v. JStr (to_string v)),
       json_parse = (\<lambda>v. Inl (LibraryError ''JSON.parse'')),
       xml_parse = (\<lambda>s. Inl (LibraryError ''parseXML'')),
       cheerio_select = (\<lambda>sel html. Inr []),
       cheerio_attr = (\<lambda>html attr. Inr JUndefined),
       cheerio_rows = (\<lambda>sel html. Inr []),
       is_valid = (\<lambda>schema v. Inr True),
       clock_now = JNum 0,
       proto_method = (\<lambda>key v options. Inr JUndefined) \<rparr>"

text \<open>The query capability of the tests "can execute query": one query, three items.\<close>

definition example_items :: json where
  "example_items =
     JObj [(''listItem'', JArr [JObj [(''id'', JNum 1)], JObj [(''id'', JNum 2)],
                               JObj [(''id'', JNum 3)]])]"

definition example_caps :: capabilities where
  "example_caps =
     \<lparr> query_cap = (\<lambda>q ctx args.
         if q = JStr ''{listItem{id}}'' then Inr example_items else Inl ''unknown query''),
       request_cap = (\<lambda>r. Inl ''no network'') \<rparr>"

text \<open>The script of the tests "can do a conditional jump with the ... operator", with
  the templates written as objects.\<close>

definition jump_steps :: "string \<Rightarrow> step list" where
  "jump_steps operator =
     [Operation [(''jump'', JObj [(''to'', JStr ''last''), (''left'', JNum 1), (''right'', JNum 2),
                                  (''operator'', JStr operator)])],
      Operation [(''object'', JObj [(''foo'', JObj [(''static'', JStr ''bar'')])])],
      Label ''last'',
      Operation [(''object'', JObj [(''foo'', JObj [(''get'', JStr ''/foo'')]),
                                    (''bar'', JObj [(''static'', JStr ''baz'')])])]]"

definition jump_program :: "string \<Rightarrow> program" where
  "jump_program operator =
     \<lparr> steps = jump_steps operator, labels = [(''last'', 2)], maxSteps = 1000, busy = False \<rparr>"




section \<open>Properties of the transformation evaluator\<close>

declare call.simps [simp del] digits.simps [simp del]

lemma nullish_simps [simp]:
  "nullish JNull" "nullish JUndefined" "\<not> nullish (JBool b)" "\<not> nullish (JNum n)"
  "\<not> nullish (JStr s)" "\<not> nullish (JArr xs)" "\<not> nullish (JObj kvs)"
  by (simp_all add: nullish_def)

lemma transform_nullish: "nullish v \<Longrightarrow> transform x t v = Inr JNull"
  by (cases t) simp_all

text \<open>The loop over the keys, cut in two: the second part starts from what the first
  part produced, unless that is null.\<close>

lemma run_keys_append:
  "\<not> nullish out \<Longrightarrow>
   run_keys x (pre @ rest) out =
     (case run_keys x pre out of
        Inl e \<Rightarrow> Inl e
      | Inr mid \<Rightarrow> if nullish mid then Inr JNull else run_keys x rest mid)"
proof (induction pre arbitrary: out)
  case Nil
  then show ?case by simp
next
  case (Cons kv pre)
  obtain key options where kv: "kv = (key, options)" by (cases kv)
  show ?case
  proof (cases "is_function key")
    case False
    then show ?thesis by (simp add: kv)
  next
    case True
    show ?thesis
    proof (cases "call x key out options")
      case (Inl e)
      then show ?thesis using True by (simp add: kv)
    next
      case (Inr out')
      then show ?thesis using True Cons.IH [of out'] by (simp add: kv)
    qed
  qed
qed

text \<open>The equation of the source: \<open>transform\<close> is the null check, the clone and the
  loop over \<open>Object.keys\<close> of the template.\<close>

lemma digits_0: "digits 0 = ''0''"
  by code_simp

lemma index_keys_Suc: "index_keys (Suc n) = ''0'' # map digits [Suc 0..<Suc n]"
  by (simp add: index_keys_def upt_conv_Cons digits_0 del: upt_Suc)

lemma not_function_0: "\<not> is_function ''0''"
  by (simp add: is_function_def method_names_def inherited_names_def)

lemma transform_unfold:
  "transform x t v =
     (if nullish v then Inr JNull
      else (case object_entries t of
              Inl e \<Rightarrow> Inl e
            | Inr entries \<Rightarrow> run_keys x entries (cloneDeep v)))"
proof (cases t)
  case (JStr s)
  then show ?thesis
  proof (cases s)
    case Nil
    with JStr show ?thesis by (simp add: index_keys_def)
  next
    case (Cons c cs)
    with JStr show ?thesis by (simp add: index_keys_Suc not_function_0)
  qed
next
  case (JArr ts)
  then show ?thesis
  proof (cases ts)
    case Nil
    with JArr show ?thesis by (simp add: index_keys_def)
  next
    case (Cons u us)
    with JArr show ?thesis by (simp add: index_keys_Suc not_function_0)
  qed
qed simp_all

lemma transform_shorthand_eq:
  "transform_shorthand pointer v = transform x (JObj [(''get'', JStr pointer)]) v"
  by (simp add: transform_shorthand_def call.simps simple_call_def is_function_def
      method_names_def split: sum.splits)

text \<open>
  C4. When the input is null or undefined, \<open>transform\<close> returns null. When an operation
  of the chain returns null or undefined, \<open>transform\<close> returns null, whatever follows
  that operation in the template: no later operation contributes, be it unknown or
  one that would throw.
\<close>

theorem transform_short_circuits:
  "(nullish v \<longrightarrow> transform x t v = Inr JNull) \<and>
   (\<not> nullish v \<and> run_keys x pre (cloneDeep v) = Inr mid \<and> \<not> nullish mid \<and>
    is_function key \<and> call x key mid options = Inr r \<and> nullish r
      \<longrightarrow> transform x (JObj (pre @ (key, options) # rest)) v = Inr JNull)"
proof (intro conjI impI)
  assume "nullish v"
  then show "transform x t v = Inr JNull" by (rule transform_nullish)
next
  assume h: "\<not> nullish v \<and> run_keys x pre (cloneDeep v) = Inr mid \<and> \<not> nullish mid \<and>
    is_function key \<and> call x key mid options = Inr r \<and> nullish r"
  then have "\<not> nullish (cloneDeep v)" by (simp add: cloneDeep_def)
  from run_keys_append [OF this, of x pre "(key, options) # rest"] h
  show "transform x (JObj (pre @ (key, options) # rest)) v = Inr JNull"
    by simp
qed

theorem transform_short_circuits_witness:
  "transform example_ext (JObj [(''static'', JNum 1)]) JNull = Inr JNull \<and>
   transform example_ext
     (JObj [(''static'', JObj []), (''get'', JStr ''/unknown''), (''substring'', JObj [])])
     (JObj []) = Inr JNull"
proof -
  have c: "run_keys example_ext [(''static'', JObj [])] (cloneDeep (JObj [])) = Inr (JObj [])"
    by code_simp
  have d: "is_function ''get''" by code_simp
  have e: "call example_ext ''get'' (JObj []) (JStr ''/unknown'') = Inr JUndefined" by code_simp
  from transform_short_circuits [of JNull example_ext "JObj [(''static'', JNum 1)]"
      "[(''static'', JObj [])]" "JObj []" "''get''" "JStr ''/unknown''" JUndefined
      "[(''substring'', JObj [])]"]
    transform_short_circuits [of "JObj []" example_ext "JObj [(''static'', JNum 1)]"
      "[(''static'', JObj [])]" "JObj []" "''get''" "JStr ''/unknown''" JUndefined
      "[(''substring'', JObj [])]"]
    c d e
  show ?thesis by simp
qed

text \<open>
  C9 as the claim states it fails: a template with a key that names no function
  yields null, without an error, when an earlier operation of the chain returned
  null or undefined, and also when the input is null.
\<close>

theorem unknown_function_counterexample:
  "\<not> is_function ''foo'' \<and>
   transform example_ext (JObj [(''get'', JStr ''/unknown''), (''foo'', JNum 1)]) (JObj []) = Inr JNull \<and>
   transform example_ext (JObj [(''foo'', JNum 1)]) JNull = Inr JNull"
  by code_simp

text \<open>
  C9, amended. When the chain reaches a key that names no function (the input is
  neither null nor undefined and the operations before the key returned values that
  are neither), \<open>transform\<close> fails with the unknown-function error for that key,
  whatever follows the key in the template.
\<close>

theorem unknown_function_aborts:
  "\<not> nullish v \<and> run_keys x pre (cloneDeep v) = Inr mid \<and> \<not> nullish mid \<and> \<not> is_function key
     \<longrightarrow> transform x (JObj (pre @ (key, options) # rest)) v = Inl (UnknownFunction key)"
proof
  assume h: "\<not> nullish v \<and> run_keys x pre (cloneDeep v) = Inr mid \<and> \<not> nullish mid \<and>
    \<not> is_function key"
  then have "\<not> nullish (cloneDeep v)" by (simp add: cloneDeep_def)
  from run_keys_append [OF this, of x pre "(key, options) # rest"] h
  show "transform x (JObj (pre @ (key, options) # rest)) v = Inl (UnknownFunction key)"
    by simp
qed

theorem unknown_function_aborts_witness:
  "transform example_ext
     (JObj [(''static'', JStr ''abc''), (''foo'', JNum 1), (''length'', JNull)]) (JObj [])
   = Inl (UnknownFunction ''foo'')"
proof -
  have a: "run_keys example_ext [(''static'', JStr ''abc'')] (cloneDeep (JObj [])) = Inr (JStr ''abc'')"
    by code_simp
  have b: "\<not> is_function ''foo''" by code_simp
  from unknown_function_aborts [of "JObj []" example_ext "[(''static'', JStr ''abc'')]"
      "JStr ''abc''" "''foo''" "JNum 1" "[(''length'', JNull)]"] a b
  show ?thesis by simp
qed


section \<open>Properties of single operations\<close>

lemma call_simple:
  "key \<notin> {''object'', ''map'', ''array'', ''union''} \<Longrightarrow> call x key v options = simple_call x key v options"
  by (simp add: call.simps)

lemma js_prop_own: "own_prop options k \<noteq> JUndefined \<Longrightarrow> js_prop options k = Inr (own_prop options k)"
  by (cases options) (simp_all add: own_prop_def)

text \<open>
  C5 as the claim states it fails: \<open>join\<close> and \<open>slice\<close> throw on an input that is
  not an array, and \<open>count\<close> returns 0, not null, on an input that is neither a string
  nor an array.
\<close>

theorem string_family_counterexample:
  "call example_ext ''join'' (JStr ''a'') (JObj []) = Inl JoinNotArray \<and>
   call example_ext ''slice'' (JStr ''a'') (JObj []) = Inl SliceNotArray \<and>
   call example_ext ''count'' (JNum 1) (JObj []) = Inr (JNum 0)"
  by code_simp

text \<open>
  C5, amended. On an input that is not a string, \<open>lowerCase\<close>, \<open>upperCase\<close>,
  \<open>camelCase\<close>, \<open>kebabCase\<close>, \<open>snakeCase\<close>, \<open>capitalize\<close>, \<open>nameCase\<close> and
  \<open>deburr\<close> return null, \<open>replace\<close> returns null when its options are an object with a
  string \<open>search\<close> and a string \<open>replace\<close>, and \<open>substring\<close> throws. On an input that
  is neither a string nor an array, \<open>count\<close> returns 0 and \<open>length\<close> throws. On an input
  that is not an array, \<open>join\<close> and \<open>slice\<close> throw.
\<close>

theorem string_family_wrong_type:
  "(typeof v \<noteq> ''string'' \<longrightarrow>
      call x ''lowerCase'' v options = Inr JNull \<and> call x ''upperCase'' v options = Inr JNull \<and>
      call x ''camelCase'' v options = Inr JNull \<and> call x ''kebabCase'' v options = Inr JNull \<and>
      call x ''snakeCase'' v options = Inr JNull \<and> call x ''capitalize'' v options = Inr JNull \<and>
      call x ''nameCase'' v options = Inr JNull \<and> call x ''deburr'' v options = Inr JNull \<and>
      call x ''substring'' v options = Inl (SubstringWrongType (typeof v))) \<and>
   (typeof v \<noteq> ''string'' \<and> typeof options = ''object'' \<and>
    own_prop options ''search'' = JStr s \<and> own_prop options ''replace'' = JStr r \<longrightarrow>
      call x ''replace'' v options = Inr JNull) \<and>
   (typeof v \<noteq> ''string'' \<and> \<not> isArray v \<longrightarrow>
      call x ''count'' v options = Inr (JNum 0) \<and>
      call x ''length'' v options = Inl LengthWrongType) \<and>
   (\<not> isArray v \<longrightarrow>
      call x ''join'' v options = Inl JoinNotArray \<and>
      call x ''slice'' v options = Inl SliceNotArray)"
proof (intro conjI impI)
  assume "typeof v \<noteq> ''string'' \<and> typeof options = ''object'' \<and>
    own_prop options ''search'' = JStr s \<and> own_prop options ''replace'' = JStr r"
  then show "call x ''replace'' v options = Inr JNull"
    using js_prop_own [of options "''search''"]
    by (cases v) (simp_all add: call_simple simple_call_def tf_replace_def)
qed (cases v; simp add: call_simple simple_call_def tf_lowerCase_def tf_upperCase_def
      tf_camelCase_def tf_kebabCase_def tf_snakeCase_def tf_capitalize_def tf_nameCase_def
      tf_deburr_def tf_substring_def tf_count_def tf_length_def tf_join_def tf_slice_def
      string_only_def)+


theorem string_family_wrong_type_witness:
  "call example_ext ''lowerCase'' (JNum 1) (JObj [(''search'', JStr ''a''), (''replace'', JStr ''b'')]) = Inr JNull \<and>
   call example_ext ''substring'' (JNum 1) (JObj [(''search'', JStr ''a''), (''replace'', JStr ''b'')])
     = Inl (SubstringWrongType ''number'') \<and>
   call example_ext ''replace'' (JNum 1) (JObj [(''search'', JStr ''a''), (''replace'', JStr ''b'')]) = Inr JNull \<and>
   call example_ext ''count'' (JNum 1) (JObj [(''search'', JStr ''a''), (''replace'', JStr ''b'')]) = Inr (JNum 0) \<and>
   call example_ext ''length'' (JNum 1) (JObj [(''search'', JStr ''a''), (''replace'', JStr ''b'')]) = Inl LengthWrongType \<and>
   call example_ext ''join'' (JNum 1) (JObj [(''search'', JStr ''a''), (''replace'', JStr ''b'')]) = Inl JoinNotArray \<and>
   call example_ext ''slice'' (JNum 1) (JObj [(''search'', JStr ''a''), (''replace'', JStr ''b'')]) = Inl SliceNotArray"
  using string_family_wrong_type [of "JNum 1" example_ext
      "JObj [(''search'', JStr ''a''), (''replace'', JStr ''b'')]" "''a''" "''b''"]
  by (simp add: own_prop_def)

subsection \<open>The operation \<open>get\<close>\<close>















section \<open>Properties of the execution engine\<close>

declare exec.simps [simp del]

subsection \<open>Jumps\<close>

lemma compare_1_2:
  "compare operator (JNum 1) (JNum 2) = (operator \<in> {''!='', ''!=='', ''<'', ''<=''})"
  by (simp add: compare_def loose_eq_def strict_eq_def js_less_def js_less_eq_def
      to_primitive_def is_reference_def numbers_rel_def)

lemma jump_phase_1_2:
  "jump_phase x P doc n
     (JObj [(''to'', JStr l), (''left'', JNum 1), (''right'', JNum 2), (''operator'', JStr operator)])
   = (if operator \<in> {''!='', ''!=='', ''<'', ''<=''} then resolve_label P l else Inr (n + 1))"
  by (simp add: jump_phase_def defaults_prop_def own_prop_def eval_operand_def compare_1_2 Let_def)

lemma jump_program_outcome:
  "fst (run x caps (jump_program operator) (JObj [])) =
     Inr (if operator \<in> {''!='', ''!=='', ''<'', ''<=''}
          then JObj [(''foo'', JNull), (''bar'', JStr ''baz'')]
          else JObj [(''foo'', JStr ''bar''), (''bar'', JStr ''baz'')])"
proof (cases "operator \<in> {''!='', ''!=='', ''<'', ''<=''}")
  case True
  then show ?thesis
    apply (simp only: run_def run_enter_def run_settle_def jump_program_def jump_steps_def initial_state_def)
    apply (simp add: exec.simps exec_step_def exec_operation_def jump_phase_1_2 resolve_label_def
        call.simps simple_call_def is_function_def method_names_def reserved_def
        transform_shorthand_def tf_get_def tf_static_def JsonPointer_get_def compilePointer_def
        split_str_def cloneDeep_def)
    done
next
  case False
  then show ?thesis
    apply (simp only: run_def run_enter_def run_settle_def jump_program_def jump_steps_def initial_state_def)
    apply (simp add: exec.simps exec_step_def exec_operation_def jump_phase_1_2 resolve_label_def
        call.simps simple_call_def is_function_def method_names_def reserved_def
        transform_shorthand_def tf_get_def tf_static_def JsonPointer_get_def compilePointer_def
        split_str_def cloneDeep_def)
    done
qed

text \<open>
  C1 as the claim states it fails: with \<open>left = 1\<close> and \<open>right = 2\<close> the operator
  \<open><=\<close> evaluates to true, the jump is taken and \<open>foo\<close> stays null, as the table of
  the test suite has it (\<open>'<=': true\<close>).
\<close>

theorem jump_truth_table_counterexample:
  "compare ''<='' (JNum 1) (JNum 2) \<and>
   fst (run example_ext example_caps (jump_program ''<='') (JObj []))
     = Inr (JObj [(''foo'', JNull), (''bar'', JStr ''baz'')])"
  by code_simp

text \<open>
  C1, amended. For a jump with \<open>left = 1\<close> and \<open>right = 2\<close>, exactly the operators
  \<open>!=\<close>, \<open>!==\<close>, \<open><\<close> and \<open><=\<close> evaluate to true: the jump step then continues at the
  label, and the script of the test ends with \<open>foo\<close> null. Every other operator,
  recognized or not, evaluates to false: the program counter advances by one and the
  script ends with \<open>foo = 'bar'\<close>.
\<close>

theorem jump_truth_table:
  "compare operator (JNum 1) (JNum 2) = (operator \<in> {''!='', ''!=='', ''<'', ''<=''}) \<and>
   jump_phase x P doc n
     (JObj [(''to'', JStr l), (''left'', JNum 1), (''right'', JNum 2), (''operator'', JStr operator)])
     = (if operator \<in> {''!='', ''!=='', ''<'', ''<=''} then resolve_label P l else Inr (n + 1)) \<and>
   fst (run x caps (jump_program operator) (JObj [])) =
     Inr (if operator \<in> {''!='', ''!=='', ''<'', ''<=''}
          then JObj [(''foo'', JNull), (''bar'', JStr ''baz'')]
          else JObj [(''foo'', JStr ''bar''), (''bar'', JStr ''baz'')])"
  by (intro conjI) (rule compare_1_2, rule jump_phase_1_2, rule jump_program_outcome)

theorem jump_truth_table_witness:
  "jump_phase example_ext (jump_program ''<'') (JObj []) 0
     (JObj [(''to'', JStr ''last''), (''left'', JNum 1), (''right'', JNum 2), (''operator'', JStr ''<'')])
     = Inr 2 \<and>
   jump_phase example_ext (jump_program ''unknown'') (JObj []) 0
     (JObj [(''to'', JStr ''last''), (''left'', JNum 1), (''right'', JNum 2), (''operator'', JStr ''unknown'')])
     = Inr 1 \<and>
   fst (run example_ext example_caps (jump_program ''in'') (JObj []))
     = Inr (JObj [(''foo'', JStr ''bar''), (''bar'', JStr ''baz'')])"
proof (intro conjI)
  have l: "resolve_label (jump_program ''<'') ''last'' = Inr 2"
    by (simp add: resolve_label_def jump_program_def)
  show "jump_phase example_ext (jump_program ''<'') (JObj []) 0
     (JObj [(''to'', JStr ''last''), (''left'', JNum 1), (''right'', JNum 2), (''operator'', JStr ''<'')])
     = Inr 2"
    using jump_truth_table [THEN conjunct2, THEN conjunct1,
        of example_ext "jump_program ''<''" "JObj []" 0 "''last''" "''<''"] l
    by simp
  show "jump_phase example_ext (jump_program ''unknown'') (JObj []) 0
     (JObj [(''to'', JStr ''last''), (''left'', JNum 1), (''right'', JNum 2), (''operator'', JStr ''unknown'')])
     = Inr 1"
    using jump_truth_table [THEN conjunct2, THEN conjunct1,
        of example_ext "jump_program ''unknown''" "JObj []" 0 "''last''" "''unknown''"]
    by simp
  show "fst (run example_ext example_caps (jump_program ''in'') (JObj []))
     = Inr (JObj [(''foo'', JStr ''bar''), (''bar'', JStr ''baz'')])"
    using jump_truth_table [THEN conjunct2, THEN conjunct2, of example_ext example_caps "''in''"]
    by simp
qed

subsection \<open>Writing the result of a query\<close>









subsection \<open>The step budget\<close>

lemma resolve_label_maxSteps [simp]:
  "resolve_label (P\<lparr>maxSteps := m\<rparr>) l = resolve_label P l"
  by (simp add: resolve_label_def cong: option.case_cong)

lemma jump_phase_maxSteps [simp]:
  "jump_phase x (P\<lparr>maxSteps := m\<rparr>) doc n j = jump_phase x P doc n j"
  by (simp add: jump_phase_def Let_def cong: sum.case_cong json.case_cong if_cong)

lemma exec_operation_maxSteps [simp]:
  "exec_operation x caps (P\<lparr>maxSteps := m\<rparr>) kvs doc n = exec_operation x caps P kvs doc n"
  by (simp add: exec_operation_def cong: sum.case_cong option.case_cong)

lemma exec_step_maxSteps [simp]:
  "exec_step x caps (P\<lparr>maxSteps := m\<rparr>) s = exec_step x caps P s"
  by (simp add: exec_step_def cong: sum.case_cong step.case_cong)









subsection \<open>Reentrancy\<close>




section \<open>Properties of computing and applying changes\<close>

lemma wf_items_iff: "wf_items xs \<longleftrightarrow> (\<forall>x \<in> set xs. wf_json x)"
  by (induction xs) auto

lemma wf_props_iff: "wf_props kvs \<longleftrightarrow> (\<forall>kv \<in> set kvs. wf_json (snd kv))"
  by (induction kvs) auto

lemma isEqual_items_refl: "(\<forall>x \<in> set xs. isEqual x x) \<Longrightarrow> isEqual_items xs xs"
  by (induction xs) auto

lemma isEqual_props_iff:
  "isEqual_props a b \<longleftrightarrow> (\<forall>kv \<in> set a. \<exists>w. map_of b (fst kv) = Some w \<and> isEqual (snd kv) w)"
  by (induction a) (auto split: option.splits)

lemma isEqual_refl: "wf_json v \<Longrightarrow> isEqual v v"
proof (induction v)
  case (JArr xs)
  then show ?case by (simp add: wf_items_iff isEqual_items_refl)
next
  case (JObj kvs)
  then have d: "distinct (map fst kvs)" and w: "\<forall>kv \<in> set kvs. wf_json (snd kv)"
    by (simp_all add: wf_props_iff)
  have "\<forall>kv \<in> set kvs. \<exists>w. map_of kvs (fst kv) = Some w \<and> isEqual (snd kv) w"
  proof
    fix kv assume kv: "kv \<in> set kvs"
    obtain k v where p: "kv = (k, v)" by (cases kv)
    with kv d have "map_of kvs k = Some v" by simp
    moreover from JObj.IH [of kv v] kv w p have "isEqual v v" by auto
    ultimately show "\<exists>w. map_of kvs (fst kv) = Some w \<and> isEqual (snd kv) w"
      using p by simp
  qed
  then show ?case by (simp add: isEqual_props_iff)
qed simp_all

lemma isEqual_JNull_right: "isEqual v JNull \<longleftrightarrow> v = JNull"
  by (cases v) auto

lemma map_of_change_objects:
  "distinct (map fst c) \<Longrightarrow>
   map_of (change_objects t c) k =
     (case map_of c k of
        None \<Rightarrow> map_of t k
      | Some v \<Rightarrow> if nullish v then None else Some v)"
proof (induction c arbitrary: t)
  case Nil
  then show ?case by (simp add: change_objects_def)
next
  case (Cons kv c)
  obtain k' v' where kv: "kv = (k', v')" by (cases kv)
  from Cons.prems kv have d: "distinct (map fst c)" and n: "map_of c k' = None"
    by (auto simp add: map_of_eq_None_iff)
  have "map_of (change_objects t (kv # c)) k = map_of (change_objects (apply_change kv t) c) k"
    by (simp add: change_objects_def)
  also have "\<dots> = (case map_of c k of
        None \<Rightarrow> map_of (apply_change kv t) k
      | Some v \<Rightarrow> if nullish v then None else Some v)"
    by (rule Cons.IH [OF d])
  finally show ?case
    using n kv by (auto simp add: apply_change_def update_conv' delete_conv' split: option.splits)
qed

lemma distinct_change_objects:
  "distinct (map fst t) \<Longrightarrow> distinct (map fst (change_objects t c))"
proof (induction c arbitrary: t)
  case Nil
  then show ?case by (simp add: change_objects_def)
next
  case (Cons kv c)
  from Cons.prems have "distinct (map fst (apply_change kv t))"
    by (simp add: apply_change_def distinct_update distinct_delete)
  from Cons.IH [OF this] show ?case by (simp add: change_objects_def)
qed

lemma distinct_changed_keys:
  "distinct (map fst left) \<Longrightarrow> distinct (map fst right) \<Longrightarrow> distinct (changed_keys left right)"
  by (auto simp add: changed_keys_def)

lemma set_changed_keys: "set (changed_keys left right) = fst ` set left \<union> fst ` set right"
  by (auto simp add: changed_keys_def)

lemma distinct_changed_objects:
  "distinct (map fst left) \<Longrightarrow> distinct (map fst right) \<Longrightarrow>
   distinct (map fst (changed_objects left right))"
  by (simp add: changed_objects_def comp_def distinct_changed_keys)

lemma map_of_changed_objects:
  "map_of (changed_objects left right) k =
     (if (k \<in> fst ` set left \<or> k \<in> fst ` set right) \<and>
         \<not> isEqual (value_or_null left k) (value_or_null right k)
      then Some (value_or_null right k) else None)"
  by (simp add: changed_objects_def map_of_map_restrict restrict_map_def set_changed_keys)


lemma value_or_null_plain:
  "\<forall>kv \<in> set kvs. \<not> nullish (snd kv) \<Longrightarrow>
   value_or_null kvs k = (case map_of kvs k of None \<Rightarrow> JNull | Some v \<Rightarrow> v)"
  by (auto simp add: value_or_null_def nullish_def split: option.splits dest!: map_of_SomeD)

lemma roundtrip_key:
  assumes dl: "distinct (map fst left)" and dr: "distinct (map fst right)"
    and wr: "\<forall>kv \<in> set right. wf_json (snd kv)"
    and nl: "\<forall>kv \<in> set left. \<not> nullish (snd kv)"
    and nr: "\<forall>kv \<in> set right. \<not> nullish (snd kv)"
  shows "(case map_of (change_objects left (changed_objects left right)) k of
            None \<Rightarrow> map_of right k = None
          | Some v \<Rightarrow> (\<exists>w. map_of right k = Some w \<and> isEqual v w))"
proof -
  let ?c = "changed_objects left right"
  have res: "map_of (change_objects left ?c) k =
     (case map_of ?c k of None \<Rightarrow> map_of left k | Some v \<Rightarrow> if nullish v then None else Some v)"
    by (rule map_of_change_objects [OF distinct_changed_objects [OF dl dr]])
  have vl: "value_or_null left k = (case map_of left k of None \<Rightarrow> JNull | Some v \<Rightarrow> v)"
    by (rule value_or_null_plain [OF nl])
  have vr: "value_or_null right k = (case map_of right k of None \<Rightarrow> JNull | Some v \<Rightarrow> v)"
    by (rule value_or_null_plain [OF nr])
  show ?thesis
  proof (cases "map_of left k")
    case ln: None
    show ?thesis
    proof (cases "map_of right k")
      case None
      with ln show ?thesis
        by (simp add: res map_of_changed_objects map_of_eq_None_iff [symmetric])
    next
      case (Some w)
      then have "(k, w) \<in> set right" by (rule map_of_SomeD)
      with nr wr have nw: "\<not> nullish w" and "wf_json w" by auto
      then have "isEqual w w" and "w \<noteq> JNull" by (auto simp add: isEqual_refl)
      with ln Some nw show ?thesis
        by (auto simp add: res map_of_changed_objects vl vr map_of_eq_None_iff [symmetric])
    qed
  next
    case ls: (Some v)
    then have "(k, v) \<in> set left" by (rule map_of_SomeD)
    with nl have nv: "\<not> nullish v" by auto
    then have vn: "v \<noteq> JNull" by auto
    show ?thesis
    proof (cases "map_of right k")
      case None
      with ls vn show ?thesis
        by (auto simp add: res map_of_changed_objects vl vr isEqual_JNull_right
            map_of_eq_None_iff [symmetric])
    next
      case (Some w)
      then have "(k, w) \<in> set right" by (rule map_of_SomeD)
      with nr wr have nw: "\<not> nullish w" and "wf_json w" by auto
      then have "isEqual w w" by (simp add: isEqual_refl)
      with ls Some nw show ?thesis
        by (auto simp add: res map_of_changed_objects vl vr map_of_eq_None_iff [symmetric])
    qed
  qed
qed

text \<open>
  C7 as the claim states it fails: \<open>changed\<close> reports a key that disappeared with the
  value null, so a key of \<open>right\<close> whose value is null cannot be told from a key that
  is absent. With \<open>left = {}\<close> and \<open>right = {g: null}\<close> nothing is reported as changed,
  and applying the changes to \<open>left\<close> gives \<open>{}\<close>, which is not \<open>right\<close>.
\<close>

theorem change_inverts_changed_counterexample:
  "\<not> isEqual (JObj (change_objects [] (changed_objects [] [(''g'', JNull)]))) (JObj [(''g'', JNull)]) \<and>
   tf_changed example_ext (JObj [(''left'', JObj []), (''right'', JObj [(''g'', JNull)])])
     (JObj [(''left'', JStr ''/left''), (''right'', JStr ''/right'')]) = Inr (JObj []) \<and>
   tf_change example_ext (JObj [(''target'', JObj []), (''changes'', JObj [])])
     (JObj [(''target'', JStr ''/target''), (''changes'', JStr ''/changes'')]) = Inr (JObj [])"
  by code_simp

text \<open>
  C7, amended. For all objects \<open>left\<close> and \<open>right\<close> none of whose own values is null
  or undefined, applying \<open>change\<close> to \<open>left\<close> with the changes that \<open>changed\<close> computes
  from \<open>left\<close> and \<open>right\<close> gives an object deeply equal to \<open>right\<close>: the keys that
  disappeared are removed, the keys that are new or differ take the value of
  \<open>right\<close> as a whole (no deep merge), and the other keys keep their value.
\<close>

theorem change_inverts_changed:
  "wf_json (JObj left) \<and> wf_json (JObj right) \<and>
   (\<forall>kv \<in> set left. \<not> nullish (snd kv)) \<and> (\<forall>kv \<in> set right. \<not> nullish (snd kv))
   \<longrightarrow> isEqual (JObj (change_objects left (changed_objects left right))) (JObj right)"
proof
  assume h: "wf_json (JObj left) \<and> wf_json (JObj right) \<and>
   (\<forall>kv \<in> set left. \<not> nullish (snd kv)) \<and> (\<forall>kv \<in> set right. \<not> nullish (snd kv))"
  let ?res = "change_objects left (changed_objects left right)"
  from h have dl: "distinct (map fst left)" and dr: "distinct (map fst right)"
    and wr: "\<forall>kv \<in> set right. wf_json (snd kv)"
    and nl: "\<forall>kv \<in> set left. \<not> nullish (snd kv)"
    and nr: "\<forall>kv \<in> set right. \<not> nullish (snd kv)"
    by (simp_all add: wf_props_iff)
  note key = roundtrip_key [OF dl dr wr nl nr]
  have dres: "distinct (map fst ?res)" by (rule distinct_change_objects [OF dl])
  have props: "isEqual_props ?res right"
    unfolding isEqual_props_iff
  proof
    fix kv assume kv: "kv \<in> set ?res"
    obtain k v where p: "kv = (k, v)" by (cases kv)
    with kv dres have "map_of ?res k = Some v" by simp
    with key [of k] p show "\<exists>w. map_of right (fst kv) = Some w \<and> isEqual (snd kv) w" by simp
  qed
  have "fst ` set ?res = fst ` set right"
  proof (rule set_eqI)
    fix k
    from key [of k] have "map_of ?res k = None \<longleftrightarrow> map_of right k = None"
      by (cases "map_of ?res k") auto
    then show "k \<in> fst ` set ?res \<longleftrightarrow> k \<in> fst ` set right"
      by (simp add: map_of_eq_None_iff)
  qed
  then have "card (set (map fst ?res)) = card (set (map fst right))" by simp
  with dres dr have "length ?res = length right"
    by (metis distinct_card length_map)
  with props show "isEqual (JObj ?res) (JObj right)" by simp
qed

theorem change_inverts_changed_witness:
  "isEqual
     (JObj (change_objects
        [(''a'', JNum 1), (''b'', JStr ''test''), (''c'', JObj [(''foo'', JStr ''bar'')]),
         (''d'', JObj [(''foo'', JStr ''bar'')])]
        (changed_objects
           [(''a'', JNum 1), (''b'', JStr ''test''), (''c'', JObj [(''foo'', JStr ''bar'')]),
            (''d'', JObj [(''foo'', JStr ''bar'')])]
           [(''a'', JNum 1), (''e'', JStr ''test''), (''c'', JObj [(''foo'', JStr ''baz'')]),
            (''d'', JObj [(''foo'', JStr ''bar'')])])))
     (JObj [(''a'', JNum 1), (''e'', JStr ''test''), (''c'', JObj [(''foo'', JStr ''baz'')]),
            (''d'', JObj [(''foo'', JStr ''bar'')])])"
  using change_inverts_changed
    [of "[(''a'', JNum 1), (''b'', JStr ''test''), (''c'', JObj [(''foo'', JStr ''bar'')]),
         (''d'', JObj [(''foo'', JStr ''bar'')])]"
        "[(''a'', JNum 1), (''e'', JStr ''test''), (''c'', JObj [(''foo'', JStr ''baz'')]),
            (''d'', JObj [(''foo'', JStr ''bar'')])]"]
  by simp


end
